theory Spec2Isabelle
  imports Main "HOL-Library.Word" "HOL-Library.Sublist"
begin

unbundle bit_operations_syntax

section \<open>Bytes, strings and the attached range\<close>

text \<open>
  A byte is an 8-bit word; a \<open>std::string_view\<close>, a \<open>std::string\<close> and the contents of a
  \<open>std::span\<close> are byte lists. Plain \<open>char\<close> is read as its byte value
  (unsigned, as on the ARM ABIs); symbol names are 7-bit in practice, where signedness
  makes no difference.
\<close>

type_synonym byte = "8 word"
type_synonym bytes = "byte list"
type_synonym u16 = "16 word"
type_synonym u32 = "32 word"
type_synonym u64 = "64 word"

section \<open>Faults and reads from the attached range\<close>

text \<open>
  The C++ code reads through raw pointers. Every pointer of the descriptor is
  \<open>file.data() + off\<close>, so a pointer is modelled by its offset from the start of the
  attached range, with \<open>None\<close> for \<open>nullptr\<close>. A read that leaves the attached range, a
  read through a null pointer, a division by zero and an oversized shift are undefined
  behaviour in the source; in the model each is a fault, returned as \<open>Inl\<close>. A loop that
  never exits is the fault \<open>Diverges\<close>. The host is taken little-endian with a 64-bit
  \<open>size_t\<close>. Addresses and loop indices are natural numbers: every iteration of a counted
  loop reads a record at its index, so with an attached range shorter than \<open>2^31\<close> bytes
  the \<open>int\<close> and \<open>uint32_t\<close> counters of the source reach a fault before they could wrap.
\<close>

datatype fault = NullDeref | OutOfRange | DivByZero | BadShift | Diverges

type_synonym 'a res = "fault + 'a"

type_synonym ptr = "nat option"

definition bindE :: "'a res \<Rightarrow> ('a \<Rightarrow> 'b res) \<Rightarrow> 'b res" where
  "bindE m f = (case m of Inl e \<Rightarrow> Inl e | Inr x \<Rightarrow> f x)"

definition mapE :: "('a \<Rightarrow> 'b) \<Rightarrow> 'a res \<Rightarrow> 'b res" where
  "mapE f m = (case m of Inl e \<Rightarrow> Inl e | Inr x \<Rightarrow> Inr (f x))"

definition deref :: "ptr \<Rightarrow> nat res" where
  "deref p = (case p of None \<Rightarrow> Inl NullDeref | Some a \<Rightarrow> Inr a)"

fun le_nat :: "bytes \<Rightarrow> nat" where
  "le_nat [] = 0"
| "le_nat (b # bs) = unat b + 256 * le_nat bs"

definition read_bytes :: "bytes \<Rightarrow> nat \<Rightarrow> nat \<Rightarrow> bytes res" where
  "read_bytes mem off n =
     (if off + n \<le> length mem then Inr (take n (drop off mem)) else Inl OutOfRange)"

definition read_u8 :: "bytes \<Rightarrow> nat \<Rightarrow> byte res" where
  "read_u8 mem off = (if off < length mem then Inr (mem ! off) else Inl OutOfRange)"

definition read_u16 :: "bytes \<Rightarrow> nat \<Rightarrow> u16 res" where
  "read_u16 mem off = mapE (\<lambda>bs. of_nat (le_nat bs)) (read_bytes mem off 2)"

definition read_u32 :: "bytes \<Rightarrow> nat \<Rightarrow> u32 res" where
  "read_u32 mem off = mapE (\<lambda>bs. of_nat (le_nat bs)) (read_bytes mem off 4)"

definition read_u64 :: "bytes \<Rightarrow> nat \<Rightarrow> u64 res" where
  "read_u64 mem off = mapE (\<lambda>bs. of_nat (le_nat bs)) (read_bytes mem off 8)"

text \<open>
  C strings. \<open>cstr_from m\<close> is the string that starts at the first byte of \<open>m\<close>: the bytes
  before the first NUL, or nothing when the range ends before a NUL is met.
\<close>

fun cstr_from :: "bytes \<Rightarrow> bytes option" where
  "cstr_from [] = None"
| "cstr_from (b # bs) = (if b = 0 then Some [] else map_option ((#) b) (cstr_from bs))"

definition read_cstr :: "bytes \<Rightarrow> nat \<Rightarrow> bytes res" where
  "read_cstr mem off =
     (case cstr_from (drop off mem) of None \<Rightarrow> Inl OutOfRange | Some s \<Rightarrow> Inr s)"

text \<open>
  \<open>strncmp(s, p.data(), p.size()) == 0\<close> with \<open>s\<close> in the attached range: bytes are
  compared in order; the comparison stops at the first difference, after a NUL that both
  sides share, or when all of \<open>p\<close> has been compared. The first argument of \<open>strncmp_l\<close>
  is the range from \<open>s\<close> on.
\<close>

fun strncmp_l :: "bytes \<Rightarrow> bytes \<Rightarrow> bool res" where
  "strncmp_l m [] = Inr True"
| "strncmp_l [] (c # cs) = Inl OutOfRange"
| "strncmp_l (b # m) (c # cs) =
     (if b \<noteq> c then Inr False else if b = 0 then Inr True else strncmp_l m cs)"

definition strncmp_eq :: "bytes \<Rightarrow> nat \<Rightarrow> bytes \<Rightarrow> bool res" where
  "strncmp_eq mem off p = strncmp_l (drop off mem) p"

text \<open>\<open>strcmp(s, lit) == 0\<close> for a literal without NUL: the terminator is compared too.\<close>

definition strcmp_eq :: "bytes \<Rightarrow> nat \<Rightarrow> bytes \<Rightarrow> bool res" where
  "strcmp_eq mem off lit = strncmp_l (drop off mem) (lit @ [0])"

text \<open>
  \<open>symbol == symname\<close> with a \<open>std::string_view\<close> on the left and a \<open>const char*\<close> on the
  right: the right side becomes a view of the whole C string first.
\<close>

definition view_eq_cstr :: "bytes \<Rightarrow> nat \<Rightarrow> bytes \<Rightarrow> bool res" where
  "view_eq_cstr mem off symbol = mapE (\<lambda>s. symbol = s) (read_cstr mem off)"

text \<open>Loops over an index range: a fault ends the loop.\<close>

fun foldE :: "(nat \<Rightarrow> 's \<Rightarrow> 's res) \<Rightarrow> nat list \<Rightarrow> 's \<Rightarrow> 's res" where
  "foldE f [] s = Inr s"
| "foldE f (i # is) s = (case f i s of Inl e \<Rightarrow> Inl e | Inr s' \<Rightarrow> foldE f is s')"

text \<open>A loop that returns (or breaks) at the first index where the body yields a value.\<close>

fun firstE :: "(nat \<Rightarrow> 'b option res) \<Rightarrow> nat list \<Rightarrow> 'b option res" where
  "firstE f [] = Inr None"
| "firstE f (i # is) =
     (case f i of Inl e \<Rightarrow> Inl e | Inr (Some y) \<Rightarrow> Inr (Some y) | Inr None \<Rightarrow> firstE f is)"

section \<open>Hash functions\<close>

text \<open>
  \<open>elf_sysv_hash\<close>: the loop \<open>while (i < name.size())\<close> visits the bytes in order, so the
  model recurses over the remaining bytes with the accumulator \<open>h\<close>.
\<close>

fun elf_sysv_hash_loop :: "u32 \<Rightarrow> bytes \<Rightarrow> u32" where
  "elf_sysv_hash_loop h [] = h"
| "elf_sysv_hash_loop h (c # cs) =
     (let h1 = push_bit 4 h + ucast c;
          g = h1 AND 0xf0000000;
          h2 = h1 XOR g;
          h3 = h2 XOR drop_bit 24 g
      in elf_sysv_hash_loop h3 cs)"

definition elf_sysv_hash :: "bytes \<Rightarrow> u32" where
  "elf_sysv_hash name = elf_sysv_hash_loop 0 name"

fun elf_gnu_hash_loop :: "u32 \<Rightarrow> bytes \<Rightarrow> u32" where
  "elf_gnu_hash_loop h [] = h"
| "elf_gnu_hash_loop h (c # cs) = elf_gnu_hash_loop (h + (push_bit 5 h + ucast c)) cs"

definition elf_gnu_hash :: "bytes \<Rightarrow> u32" where
  "elf_gnu_hash name = elf_gnu_hash_loop 5381 name"

definition str :: "string \<Rightarrow> bytes" where
  "str s = map (\<lambda>c. of_char c) s"

section \<open>ELF constants and record layouts\<close>

text \<open>
  Modelled from the spec: the declaration of \<open>ElfView::ElfClass\<close> is in \<open>ElfView.h\<close>, which is
  not among the sources. The spec gives the variant \<open>{None, Elf32, Elf64}\<close> with class byte
  1 for Elf32 and 2 for Elf64. A scoped enumeration has underlying type \<open>int\<close>, so
  \<open>static_cast<ElfClass>\<close> of a byte keeps the byte's value whatever it is; the model is
  the underlying integer.
\<close>

type_synonym ElfClass = int

abbreviation (input) kNone :: ElfClass where "kNone \<equiv> 0"
abbreviation (input) kElf32 :: ElfClass where "kElf32 \<equiv> 1"
abbreviation (input) kElf64 :: ElfClass where "kElf64 \<equiv> 2"

text \<open>Constants of \<open>elf.h\<close>.\<close>

abbreviation (input) PT_LOAD :: u32 where "PT_LOAD \<equiv> 1"
abbreviation (input) PT_DYNAMIC :: u32 where "PT_DYNAMIC \<equiv> 2"
abbreviation (input) PT_PHDR :: u32 where "PT_PHDR \<equiv> 6"

abbreviation (input) DT_NULL :: u64 where "DT_NULL \<equiv> 0"
abbreviation (input) DT_PLTRELSZ :: u64 where "DT_PLTRELSZ \<equiv> 2"
abbreviation (input) DT_STRTAB :: u64 where "DT_STRTAB \<equiv> 5"
abbreviation (input) DT_RELA :: u64 where "DT_RELA \<equiv> 7"
abbreviation (input) DT_RELASZ :: u64 where "DT_RELASZ \<equiv> 8"
abbreviation (input) DT_SONAME :: u64 where "DT_SONAME \<equiv> 14"
abbreviation (input) DT_REL :: u64 where "DT_REL \<equiv> 17"
abbreviation (input) DT_RELSZ :: u64 where "DT_RELSZ \<equiv> 18"
abbreviation (input) DT_PLTREL :: u64 where "DT_PLTREL \<equiv> 20"
abbreviation (input) DT_JMPREL :: u64 where "DT_JMPREL \<equiv> 23"

abbreviation (input) SHT_PROGBITS :: u32 where "SHT_PROGBITS \<equiv> 1"
abbreviation (input) SHT_SYMTAB :: u32 where "SHT_SYMTAB \<equiv> 2"
abbreviation (input) SHT_STRTAB :: u32 where "SHT_STRTAB \<equiv> 3"
abbreviation (input) SHT_HASH :: u32 where "SHT_HASH \<equiv> 5"
abbreviation (input) SHT_DYNSYM :: u32 where "SHT_DYNSYM \<equiv> 11"
abbreviation (input) SHT_GNU_HASH :: u32 where "SHT_GNU_HASH \<equiv> 0x6ffffff6"

abbreviation (input) R_386_32 :: u64 where "R_386_32 \<equiv> 1"
abbreviation (input) R_386_GLOB_DAT :: u64 where "R_386_GLOB_DAT \<equiv> 6"
abbreviation (input) R_386_JMP_SLOT :: u64 where "R_386_JMP_SLOT \<equiv> 7"
abbreviation (input) R_ARM_ABS32 :: u64 where "R_ARM_ABS32 \<equiv> 2"
abbreviation (input) R_ARM_GLOB_DAT :: u64 where "R_ARM_GLOB_DAT \<equiv> 21"
abbreviation (input) R_ARM_JUMP_SLOT :: u64 where "R_ARM_JUMP_SLOT \<equiv> 22"
abbreviation (input) R_X86_64_64 :: u64 where "R_X86_64_64 \<equiv> 1"
abbreviation (input) R_X86_64_GLOB_DAT :: u64 where "R_X86_64_GLOB_DAT \<equiv> 6"
abbreviation (input) R_X86_64_JUMP_SLOT :: u64 where "R_X86_64_JUMP_SLOT \<equiv> 7"
abbreviation (input) R_AARCH64_ABS64 :: u64 where "R_AARCH64_ABS64 \<equiv> 257"
abbreviation (input) R_AARCH64_GLOB_DAT :: u64 where "R_AARCH64_GLOB_DAT \<equiv> 1025"
abbreviation (input) R_AARCH64_JUMP_SLOT :: u64 where "R_AARCH64_JUMP_SLOT \<equiv> 1026"

definition ELFMAG :: bytes where
  "ELFMAG = [0x7f, 0x45, 0x4c, 0x46]"

text \<open>
  The templates pick the 32-bit record types when \<open>kElfClass == kElf32\<close> and the 64-bit
  ones otherwise. A field that is 32 bits wide in one layout and 64 bits in the other is
  read zero-extended to 64 bits; \<open>rd_word k mem o32 o64\<close> takes its offset in each layout.
\<close>

definition rd_word :: "ElfClass \<Rightarrow> bytes \<Rightarrow> nat \<Rightarrow> nat \<Rightarrow> u64 res" where
  "rd_word k mem o32 o64 =
     (if k = kElf32 then mapE ucast (read_u32 mem o32) else read_u64 mem o64)"

definition e_machine :: "bytes \<Rightarrow> u16 res" where
  "e_machine file = read_u16 file 18"

definition e_phoff :: "ElfClass \<Rightarrow> bytes \<Rightarrow> u64 res" where
  "e_phoff k file = rd_word k file 28 32"

definition e_shoff :: "ElfClass \<Rightarrow> bytes \<Rightarrow> u64 res" where
  "e_shoff k file = rd_word k file 32 40"

definition e_phentsize :: "ElfClass \<Rightarrow> bytes \<Rightarrow> u16 res" where
  "e_phentsize k file = read_u16 file (if k = kElf32 then 42 else 54)"

definition e_phnum :: "ElfClass \<Rightarrow> bytes \<Rightarrow> u16 res" where
  "e_phnum k file = read_u16 file (if k = kElf32 then 44 else 56)"

definition e_shentsize :: "ElfClass \<Rightarrow> bytes \<Rightarrow> u16 res" where
  "e_shentsize k file = read_u16 file (if k = kElf32 then 46 else 58)"

definition e_shnum :: "ElfClass \<Rightarrow> bytes \<Rightarrow> u16 res" where
  "e_shnum k file = read_u16 file (if k = kElf32 then 48 else 60)"

definition e_shstrndx :: "ElfClass \<Rightarrow> bytes \<Rightarrow> u16 res" where
  "e_shstrndx k file = read_u16 file (if k = kElf32 then 50 else 62)"

definition p_type :: "bytes \<Rightarrow> nat \<Rightarrow> u32 res" where
  "p_type file phdr = read_u32 file phdr"

definition p_offset :: "ElfClass \<Rightarrow> bytes \<Rightarrow> nat \<Rightarrow> u64 res" where
  "p_offset k file phdr = rd_word k file (phdr + 4) (phdr + 8)"

definition p_vaddr :: "ElfClass \<Rightarrow> bytes \<Rightarrow> nat \<Rightarrow> u64 res" where
  "p_vaddr k file phdr = rd_word k file (phdr + 8) (phdr + 16)"

definition p_memsz :: "ElfClass \<Rightarrow> bytes \<Rightarrow> nat \<Rightarrow> u64 res" where
  "p_memsz k file phdr = rd_word k file (phdr + 20) (phdr + 40)"

definition d_tag :: "ElfClass \<Rightarrow> bytes \<Rightarrow> nat \<Rightarrow> u64 res" where
  "d_tag k file dyn = rd_word k file dyn dyn"

definition d_val :: "ElfClass \<Rightarrow> bytes \<Rightarrow> nat \<Rightarrow> u64 res" where
  "d_val k file dyn = rd_word k file (dyn + 4) (dyn + 8)"

definition sh_name :: "bytes \<Rightarrow> nat \<Rightarrow> u32 res" where
  "sh_name file shdr = read_u32 file shdr"

definition sh_type :: "bytes \<Rightarrow> nat \<Rightarrow> u32 res" where
  "sh_type file shdr = read_u32 file (shdr + 4)"

definition sh_addr :: "ElfClass \<Rightarrow> bytes \<Rightarrow> nat \<Rightarrow> u64 res" where
  "sh_addr k file shdr = rd_word k file (shdr + 12) (shdr + 16)"

definition sh_offset :: "ElfClass \<Rightarrow> bytes \<Rightarrow> nat \<Rightarrow> u64 res" where
  "sh_offset k file shdr = rd_word k file (shdr + 16) (shdr + 24)"

definition sh_size :: "ElfClass \<Rightarrow> bytes \<Rightarrow> nat \<Rightarrow> u64 res" where
  "sh_size k file shdr = rd_word k file (shdr + 20) (shdr + 32)"

definition st_name :: "bytes \<Rightarrow> nat \<Rightarrow> u32 res" where
  "st_name mem sp = read_u32 mem sp"

definition st_value :: "ElfClass \<Rightarrow> bytes \<Rightarrow> nat \<Rightarrow> u64 res" where
  "st_value k mem sp = rd_word k mem (sp + 4) (sp + 8)"

definition r_offset :: "ElfClass \<Rightarrow> bytes \<Rightarrow> nat \<Rightarrow> u64 res" where
  "r_offset k mem rel = rd_word k mem rel rel"

definition r_info :: "ElfClass \<Rightarrow> bytes \<Rightarrow> nat \<Rightarrow> u64 res" where
  "r_info k mem rel = rd_word k mem (rel + 4) (rel + 8)"

definition sizeof_Dyn :: "ElfClass \<Rightarrow> nat" where
  "sizeof_Dyn k = (if k = kElf32 then 8 else 16)"

definition sizeof_Sym :: "ElfClass \<Rightarrow> nat" where
  "sizeof_Sym k = (if k = kElf32 then 16 else 24)"

definition sizeof_Rel :: "ElfClass \<Rightarrow> nat" where
  "sizeof_Rel k = (if k = kElf32 then 8 else 16)"

definition sizeof_Rela :: "ElfClass \<Rightarrow> nat" where
  "sizeof_Rela k = (if k = kElf32 then 12 else 24)"

text \<open>\<open>ELF32_R_SYM\<close>, \<open>ELF32_R_TYPE\<close>, \<open>ELF64_R_SYM\<close> and \<open>ELF64_R_TYPE\<close>.\<close>

definition R_SYM :: "ElfClass \<Rightarrow> u64 \<Rightarrow> u64" where
  "R_SYM k i = (if k = kElf32 then drop_bit 8 i else drop_bit 32 i)"

definition R_TYPE :: "ElfClass \<Rightarrow> u64 \<Rightarrow> u64" where
  "R_TYPE k i = (if k = kElf32 then i AND 0xff else i AND 0xffffffff)"

text \<open>
  \<open>p_vaddr + p_memsz\<close> is computed in the width of the fields: 32 bits in the Elf32
  instance, 64 bits in the Elf64 one.
\<close>

definition addr_add :: "ElfClass \<Rightarrow> u64 \<Rightarrow> u64 \<Rightarrow> u64" where
  "addr_add k a b = (if k = kElf32 then (a + b) AND 0xffffffff else a + b)"

section \<open>The descriptor and the view\<close>

text \<open>
  Counts (\<open>size_t\<close>) are natural numbers; they are quotients of 64-bit values. The
  \<open>std::unordered_map\<close> is an association list with distinct keys; its order stands for
  the iteration order of the map, which C++ leaves open.
\<close>

record ElfInfo =
  elfClass :: ElfClass
  machine :: u16
  soname :: bytes
  loadBias :: u64
  loadedSize :: u64
  sysv_hash :: ptr
  sysv_hash_nbucket :: u32
  sysv_hash_nchain :: u32
  sysv_hash_bucket :: ptr
  sysv_hash_chain :: ptr
  gnu_hash :: ptr
  symtab :: ptr
  symtab_size :: nat
  strtab :: ptr
  dynsym :: ptr
  dynsym_size :: nat
  dynstr :: ptr
  use_rela :: bool
  reldyn :: ptr
  reldyn_size :: nat
  reladyn :: ptr
  reladyn_size :: nat
  relplt :: ptr
  relplt_size :: nat
  miniDebugInfo :: "nat \<times> nat"
  compressedDebugSymbols :: "(bytes \<times> u64) list"

text \<open>The default member initialisers of \<open>ElfInfo\<close>. The span is (offset, size).\<close>

definition ElfInfo_default :: ElfInfo where
  "ElfInfo_default =
     \<lparr> elfClass = kNone, machine = 0, soname = [], loadBias = 0, loadedSize = 0,
       sysv_hash = None, sysv_hash_nbucket = 0, sysv_hash_nchain = 0,
       sysv_hash_bucket = None, sysv_hash_chain = None, gnu_hash = None,
       symtab = None, symtab_size = 0, strtab = None,
       dynsym = None, dynsym_size = 0, dynstr = None,
       use_rela = False, reldyn = None, reldyn_size = 0,
       reladyn = None, reladyn_size = 0, relplt = None, relplt_size = 0,
       miniDebugInfo = (0, 0), compressedDebugSymbols = [] \<rparr>"

text \<open>
  \<open>mMemory\<close> is a span: \<open>None\<close> is the span with a null data pointer (the default one),
  \<open>Some bs\<close> a span over the bytes \<open>bs\<close>. \<open>mElfInfo\<close> is a \<open>unique_ptr\<close>: \<open>None\<close> is null.
\<close>

record ElfView =
  mMemory :: "bytes option"
  mIsLoaded :: bool
  mElfInfo :: "ElfInfo option"

definition span_bytes :: "bytes option \<Rightarrow> bytes" where
  "span_bytes m = (case m of None \<Rightarrow> [] | Some bs \<Rightarrow> bs)"

definition span_empty :: "bytes option \<Rightarrow> bool" where
  "span_empty m = (span_bytes m = [])"

text \<open>The constructor \<open>ElfView::ElfView()\<close>.\<close>

definition ElfView_new :: ElfView where
  "ElfView_new = \<lparr> mMemory = None, mIsLoaded = False, mElfInfo = Some ElfInfo_default \<rparr>"


section \<open>InitElfInfo\<close>

text \<open>
  The body of the program-header loop. The state is \<open>(phdrSelf, phdrDynamic,
  firstLoadedSegmentStart, lastLoadedSegmentEnd)\<close>; \<open>phdr\<close> is the address of header \<open>i\<close>.
\<close>

definition phdr_step ::
  "ElfClass \<Rightarrow> bytes \<Rightarrow> u64 \<Rightarrow> u16 \<Rightarrow> nat \<Rightarrow> ptr \<times> ptr \<times> u64 \<times> u64 \<Rightarrow> (ptr \<times> ptr \<times> u64 \<times> u64) res" where
  "phdr_step k file phoff phentsize i st =
     (case st of (phdrSelf, phdrDynamic, firstStart, lastEnd) \<Rightarrow>
        let phdr = unat phoff + i * unat phentsize in
        bindE (p_type file phdr) (\<lambda>t.
          if t = PT_PHDR then Inr (Some phdr, phdrDynamic, firstStart, lastEnd)
          else if t = PT_DYNAMIC then Inr (phdrSelf, Some phdr, firstStart, lastEnd)
          else if t = PT_LOAD then
            bindE (p_vaddr k file phdr) (\<lambda>vaddr.
            bindE (p_memsz k file phdr) (\<lambda>memsz.
              Inr (phdrSelf, phdrDynamic,
                   (if vaddr < firstStart then vaddr else firstStart),
                   (if addr_add k vaddr memsz > lastEnd then addr_add k vaddr memsz
                    else lastEnd))))
          else Inr st))"

text \<open>
  The body of the dynamic-section loop: one \<open>Elf_Dyn\<close> entry. The state is
  \<open>(sonameOffset, strtab, info)\<close>.
\<close>

definition dyn_step ::
  "ElfClass \<Rightarrow> bytes \<Rightarrow> bool \<Rightarrow> nat \<Rightarrow> nat \<Rightarrow> u64 \<times> ptr \<times> ElfInfo \<Rightarrow> (u64 \<times> ptr \<times> ElfInfo) res" where
  "dyn_step k file isLoaded phdrDynamic i st =
     (case st of (sonameOffset, strtabp, info) \<Rightarrow>
        bindE (if isLoaded then p_vaddr k file phdrDynamic else p_offset k file phdrDynamic)
          (\<lambda>base.
        let dyn = unat base + i * sizeof_Dyn k in
        bindE (d_tag k file dyn) (\<lambda>tag.
          if tag = DT_NULL then Inr st
          else if tag = DT_SONAME then
            bindE (d_val k file dyn) (\<lambda>v. Inr (v, strtabp, info))
          else if tag = DT_STRTAB then
            bindE (d_val k file dyn) (\<lambda>v. Inr (sonameOffset, Some (unat v), info))
          else if tag = DT_PLTREL then
            bindE (d_val k file dyn) (\<lambda>v.
              Inr (sonameOffset, strtabp, info\<lparr>use_rela := (v = DT_RELA)\<rparr>))
          else if tag = DT_REL then
            bindE (d_val k file dyn) (\<lambda>v.
              Inr (sonameOffset, strtabp, info\<lparr>reldyn := Some (unat v)\<rparr>))
          else if tag = DT_RELA then
            bindE (d_val k file dyn) (\<lambda>v.
              Inr (sonameOffset, strtabp, info\<lparr>reladyn := Some (unat v)\<rparr>))
          else if tag = DT_RELSZ then
            bindE (d_val k file dyn) (\<lambda>v.
              Inr (sonameOffset, strtabp, info\<lparr>reldyn_size := unat v div sizeof_Rel k\<rparr>))
          else if tag = DT_RELASZ then
            bindE (d_val k file dyn) (\<lambda>v.
              Inr (sonameOffset, strtabp, info\<lparr>reladyn_size := unat v div sizeof_Rela k\<rparr>))
          else if tag = DT_JMPREL then
            bindE (d_val k file dyn) (\<lambda>v.
              Inr (sonameOffset, strtabp, info\<lparr>relplt := Some (unat v)\<rparr>))
          else if tag = DT_PLTRELSZ then
            bindE (d_val k file dyn) (\<lambda>v.
              Inr (sonameOffset, strtabp, info\<lparr>relplt_size := unat v div sizeof_Rel k\<rparr>))
          else Inr st)))"

text \<open>The walk through the dynamic section, entered when a \<open>PT_DYNAMIC\<close> header was seen.\<close>

definition walk_dynamic :: "ElfClass \<Rightarrow> bytes \<Rightarrow> bool \<Rightarrow> nat \<Rightarrow> ElfInfo \<Rightarrow> ElfInfo res" where
  "walk_dynamic k file isLoaded phdrDynamic info =
     bindE (p_memsz k file phdrDynamic) (\<lambda>memsz.
     bindE (foldE (dyn_step k file isLoaded phdrDynamic) [0..<unat memsz div sizeof_Dyn k]
              (0, None, info))
       (\<lambda>(sonameOffset, strtabp, info').
          if sonameOffset \<noteq> 0 \<and> strtabp \<noteq> None then
            bindE (read_cstr file (the strtabp + unat sonameOffset))
              (\<lambda>s. Inr (info'\<lparr>soname := s\<rparr>))
          else Inr info'))"

text \<open>The walk through the program headers, entered when \<open>e_phoff\<close> is not 0.\<close>

definition walk_program_headers ::
  "ElfClass \<Rightarrow> bytes \<Rightarrow> bool \<Rightarrow> u64 \<Rightarrow> ElfInfo \<Rightarrow> ElfInfo res" where
  "walk_program_headers k file isLoaded phoff info =
     bindE (e_phnum k file) (\<lambda>phnum.
     bindE (e_phentsize k file) (\<lambda>phentsize.
     bindE (foldE (phdr_step k file phoff phentsize) [0..<unat phnum]
              (None, None, -1, 0))
       (\<lambda>(phdrSelf, phdrDynamic, firstStart, lastEnd).
          let info' = info\<lparr>loadBias := firstStart, loadedSize := lastEnd - firstStart\<rparr> in
          case phdrDynamic of
            None \<Rightarrow> Inr info'
          | Some d \<Rightarrow> walk_dynamic k file isLoaded d info')))"

text \<open>
  The address of a section's contents: \<open>file.data() + (isLoaded ? sh_addr : sh_offset)\<close>.
\<close>

definition section_base :: "ElfClass \<Rightarrow> bytes \<Rightarrow> bool \<Rightarrow> nat \<Rightarrow> nat res" where
  "section_base k file isLoaded shdr =
     mapE unat (if isLoaded then sh_addr k file shdr else sh_offset k file shdr)"

text \<open>The body of the section-header loop; \<open>shstrtab\<close> is \<open>sectionHeaderStringTable\<close>.\<close>

definition shdr_step ::
  "ElfClass \<Rightarrow> bytes \<Rightarrow> bool \<Rightarrow> u64 \<Rightarrow> u16 \<Rightarrow> nat \<Rightarrow> nat \<Rightarrow> ElfInfo \<Rightarrow> ElfInfo res" where
  "shdr_step k file isLoaded shoff shentsize shstrtab i info =
     (let shdr = unat shoff + i * unat shentsize in
      bindE (sh_name file shdr) (\<lambda>nm.
      let name = shstrtab + unat nm in
      bindE (sh_type file shdr) (\<lambda>t.
        if t = SHT_STRTAB then
          bindE (strcmp_eq file name (str ''.dynstr'')) (\<lambda>is_dynstr.
            if is_dynstr then
              bindE (section_base k file isLoaded shdr) (\<lambda>b. Inr (info\<lparr>dynstr := Some b\<rparr>))
            else
              bindE (strcmp_eq file name (str ''.strtab'')) (\<lambda>is_strtab.
                if is_strtab then
                  bindE (section_base k file isLoaded shdr)
                    (\<lambda>b. Inr (info\<lparr>strtab := Some b\<rparr>))
                else Inr info))
        else if t = SHT_SYMTAB then
          bindE (strcmp_eq file name (str ''.symtab'')) (\<lambda>is_symtab.
            if is_symtab then
              bindE (sh_offset k file shdr) (\<lambda>off.
              bindE (sh_size k file shdr) (\<lambda>sz.
                Inr (info\<lparr>symtab := Some (unat off),
                          symtab_size := unat sz div sizeof_Sym k\<rparr>)))
            else Inr info)
        else if t = SHT_DYNSYM then
          bindE (section_base k file isLoaded shdr) (\<lambda>b.
          bindE (sh_size k file shdr) (\<lambda>sz.
            Inr (info\<lparr>dynsym := Some b, dynsym_size := unat sz div sizeof_Sym k\<rparr>)))
        else if t = SHT_HASH then
          bindE (section_base k file isLoaded shdr) (\<lambda>b.
          bindE (sh_offset k file shdr) (\<lambda>off.
          let rawdata = unat off in
          bindE (read_u32 file rawdata) (\<lambda>nbucket.
          bindE (read_u32 file (rawdata + 4)) (\<lambda>nchain.
            Inr (info\<lparr>sysv_hash := Some b,
                      sysv_hash_nbucket := nbucket,
                      sysv_hash_nchain := nchain,
                      sysv_hash_bucket := Some (rawdata + 8),
                      sysv_hash_chain := Some (rawdata + 8 + 4 * unat nbucket)\<rparr>)))))
        else if t = SHT_GNU_HASH then
          bindE (section_base k file isLoaded shdr) (\<lambda>b. Inr (info\<lparr>gnu_hash := Some b\<rparr>))
        else if t = SHT_PROGBITS then
          bindE (strcmp_eq file name (str ''.gnu_debugdata'')) (\<lambda>is_debugdata.
            if is_debugdata \<and> \<not> isLoaded then
              bindE (sh_offset k file shdr) (\<lambda>off.
              bindE (sh_size k file shdr) (\<lambda>sz.
                Inr (info\<lparr>miniDebugInfo := (unat off, unat sz)\<rparr>)))
            else Inr info)
        else Inr info)))"

text \<open>The walk through the section headers, entered when \<open>e_shoff\<close> is not 0.\<close>

definition walk_section_headers ::
  "ElfClass \<Rightarrow> bytes \<Rightarrow> bool \<Rightarrow> u64 \<Rightarrow> ElfInfo \<Rightarrow> ElfInfo res" where
  "walk_section_headers k file isLoaded shoff info =
     bindE (e_shnum k file) (\<lambda>shnum.
     bindE (e_shentsize k file) (\<lambda>shentsize.
     bindE (e_shstrndx k file) (\<lambda>shstrndx.
     bindE (section_base k file isLoaded (unat shoff + unat shstrndx * unat shentsize))
       (\<lambda>shstrtab.
          foldE (shdr_step k file isLoaded shoff shentsize shstrtab) [0..<unat shnum] info))))"

definition InitElfInfo :: "ElfClass \<Rightarrow> bytes \<Rightarrow> ElfInfo \<Rightarrow> bool \<Rightarrow> ElfInfo res" where
  "InitElfInfo k file info isLoaded =
     bindE (e_machine file) (\<lambda>m.
     bindE (e_phoff k file) (\<lambda>phoff.
     bindE (if phoff \<noteq> 0 then walk_program_headers k file isLoaded phoff (info\<lparr>machine := m\<rparr>)
            else Inr (info\<lparr>machine := m\<rparr>))
       (\<lambda>info1.
     bindE (e_shoff k file) (\<lambda>shoff.
       if shoff = 0 then Inr info1
       else walk_section_headers k file isLoaded shoff info1))))"


section \<open>Symbol lookup\<close>

text \<open>
  A hit of the dynamic lookup is \<open>(outIndex, *outSymbol)\<close>: the index and the address of
  the symbol record. The GNU-hash block of \<open>GetDynamicSymbolIndexImpl\<close> ends in one of
  three ways: it returns \<open>true\<close> with a hit, it returns \<open>false\<close> at once (bloom filter or
  empty bucket), or its chain loop breaks and control falls through to the next block.
\<close>

type_synonym hit = "u32 \<times> nat"

datatype probe = Hit hit | ReturnFalse | FallThrough

text \<open>
  The chain loop \<open>while (true)\<close> of the GNU-hash block, from index \<open>symix\<close>. It has no bound
  of its own, so it is a partial function: \<open>None\<close> is a loop that never exits.
\<close>

partial_function (option) gnu_chain_loop ::
  "ElfClass \<Rightarrow> bytes \<Rightarrow> nat \<Rightarrow> nat \<Rightarrow> nat \<Rightarrow> u32 \<Rightarrow> u32 \<Rightarrow> bytes \<Rightarrow> u32 \<Rightarrow> (hit option res) option" where
  "gnu_chain_loop k file dynsymp dynstrp chain symoffset symbol_hash symbol symix =
     (case st_name file (dynsymp + unat symix * sizeof_Sym k) of
        Inl e \<Rightarrow> Some (Inl e)
      | Inr nm \<Rightarrow>
          (case read_u32 file (chain + 4 * unat (symix - symoffset)) of
             Inl e \<Rightarrow> Some (Inl e)
           | Inr hash \<Rightarrow>
               (case (if (symbol_hash OR 1) = (hash OR 1)
                      then view_eq_cstr file (dynstrp + unat nm) symbol else Inr False) of
                  Inl e \<Rightarrow> Some (Inl e)
                | Inr found \<Rightarrow>
                    if found then Some (Inr (Some (symix, dynsymp + unat symix * sizeof_Sym k)))
                    else if hash AND 1 \<noteq> 0 then Some (Inr None)
                    else gnu_chain_loop k file dynsymp dynstrp chain symoffset symbol_hash
                           symbol (symix + 1))))"

declare gnu_chain_loop.simps [code]

definition ELFCLASS_BITS :: "ElfClass \<Rightarrow> u32" where
  "ELFCLASS_BITS k = (if k = kElf32 then 32 else 64)"

text \<open>\<open>sizeof(bloom_el_t)\<close>.\<close>

definition sizeof_bloom_el :: "ElfClass \<Rightarrow> nat" where
  "sizeof_bloom_el k = (if k = kElf32 then 4 else 8)"

definition gnu_hash_lookup ::
  "ElfClass \<Rightarrow> bytes \<Rightarrow> ElfInfo \<Rightarrow> nat \<Rightarrow> nat \<Rightarrow> bytes \<Rightarrow> probe res" where
  "gnu_hash_lookup k file info dynsymp dynstrp symbol =
     (case gnu_hash info of
        None \<Rightarrow> Inr FallThrough
      | Some hashtab \<Rightarrow>
          let symbol_hash = elf_gnu_hash symbol in
          bindE (read_u32 file hashtab) (\<lambda>nbuckets.
          bindE (read_u32 file (hashtab + 4)) (\<lambda>symoffset.
          bindE (read_u32 file (hashtab + 8)) (\<lambda>bloom_size.
          bindE (read_u32 file (hashtab + 12)) (\<lambda>bloom_shift.
          let bloom = hashtab + 16;
              buckets = bloom + sizeof_bloom_el k * unat bloom_size;
              chain = buckets + 4 * unat nbuckets
          in
          if bloom_size = 0 then Inl DivByZero
          else
            bindE (rd_word k file
                     (bloom + 4 * unat ((symbol_hash div ELFCLASS_BITS k) mod bloom_size))
                     (bloom + 8 * unat ((symbol_hash div ELFCLASS_BITS k) mod bloom_size)))
              (\<lambda>word.
            if 32 \<le> bloom_shift then Inl BadShift
            else
              let mask = (push_bit (unat (symbol_hash mod ELFCLASS_BITS k)) 1 :: u64)
                       OR push_bit (unat (drop_bit (unat bloom_shift) symbol_hash
                                            mod ELFCLASS_BITS k)) 1
              in
              if word AND mask \<noteq> mask then Inr ReturnFalse
              else if nbuckets = 0 then Inl DivByZero
              else
                bindE (read_u32 file (buckets + 4 * unat (symbol_hash mod nbuckets)))
                  (\<lambda>symix.
                if symix < symoffset then Inr ReturnFalse
                else
                  (case gnu_chain_loop k file dynsymp dynstrp chain symoffset symbol_hash
                          symbol symix of
                     None \<Rightarrow> Inl Diverges
                   | Some r \<Rightarrow>
                       mapE (\<lambda>h. case h of None \<Rightarrow> FallThrough | Some x \<Rightarrow> Hit x) r))))))))"

text \<open>
  The \<open>do ... while (index != 0)\<close> loop of the SysV-hash block, entered with the bucket's
  index when the bucket's own symbol did not match. A cyclic chain never exits.
\<close>

partial_function (option) sysv_chain_loop ::
  "ElfClass \<Rightarrow> bytes \<Rightarrow> nat \<Rightarrow> nat \<Rightarrow> nat \<Rightarrow> bytes \<Rightarrow> u32 \<Rightarrow> (hit option res) option" where
  "sysv_chain_loop k file dynsymp dynstrp chain symbol index =
     (case read_u32 file (chain + 4 * unat index) of
        Inl e \<Rightarrow> Some (Inl e)
      | Inr index' \<Rightarrow>
          (case st_name file (dynsymp + unat index' * sizeof_Sym k) of
             Inl e \<Rightarrow> Some (Inl e)
           | Inr nm \<Rightarrow>
               (case view_eq_cstr file (dynstrp + unat nm) symbol of
                  Inl e \<Rightarrow> Some (Inl e)
                | Inr found \<Rightarrow>
                    if found then Some (Inr (Some (index', dynsymp + unat index' * sizeof_Sym k)))
                    else if index' \<noteq> 0
                    then sysv_chain_loop k file dynsymp dynstrp chain symbol index'
                    else Some (Inr None))))"

declare sysv_chain_loop.simps [code]

definition sysv_hash_lookup ::
  "ElfClass \<Rightarrow> bytes \<Rightarrow> ElfInfo \<Rightarrow> nat \<Rightarrow> nat \<Rightarrow> bytes \<Rightarrow> hit option res" where
  "sysv_hash_lookup k file info dynsymp dynstrp symbol =
     (case sysv_hash info of
        None \<Rightarrow> Inr None
      | Some h \<Rightarrow>
          if sysv_hash_nbucket info = 0 then Inl DivByZero
          else
            bindE (deref (sysv_hash_bucket info)) (\<lambda>bucket.
            bindE (read_u32 file
                     (bucket + 4 * unat (elf_sysv_hash symbol mod sysv_hash_nbucket info)))
              (\<lambda>index.
            bindE (st_name file (dynsymp + unat index * sizeof_Sym k)) (\<lambda>nm.
            bindE (view_eq_cstr file (dynstrp + unat nm) symbol) (\<lambda>found.
              if found then Inr (Some (index, dynsymp + unat index * sizeof_Sym k))
              else
                bindE (deref (sysv_hash_chain info)) (\<lambda>chain.
                  case sysv_chain_loop k file dynsymp dynstrp chain symbol index of
                    None \<Rightarrow> Inl Diverges
                  | Some r \<Rightarrow> r))))))"

text \<open>
  The exact comparison of the fallback scan:
  \<open>strncmp(symname, symbol.data(), symbol.size()) == 0 && symname[symbol.size()] == '\0'\<close>.
\<close>

definition name_matches :: "bytes \<Rightarrow> nat \<Rightarrow> bytes \<Rightarrow> bool res" where
  "name_matches file symname symbol =
     bindE (strncmp_eq file symname symbol) (\<lambda>e.
       if e then mapE (\<lambda>b. b = 0) (read_u8 file (symname + length symbol))
       else Inr False)"

text \<open>The fallback: the scan of the whole \<open>dynsym\<close>.\<close>

definition dynsym_scan ::
  "ElfClass \<Rightarrow> bytes \<Rightarrow> nat \<Rightarrow> nat \<Rightarrow> nat \<Rightarrow> bytes \<Rightarrow> hit option res" where
  "dynsym_scan k file dynsymp dynstrp n symbol =
     firstE (\<lambda>i.
        bindE (st_name file (dynsymp + i * sizeof_Sym k)) (\<lambda>nm.
        bindE (name_matches file (dynstrp + unat nm) symbol) (\<lambda>m.
          Inr (if m then Some (of_nat i, dynsymp + i * sizeof_Sym k) else None))))
       [0..<n]"

definition GetDynamicSymbolIndexImpl ::
  "ElfClass \<Rightarrow> bytes \<Rightarrow> ElfInfo \<Rightarrow> bytes \<Rightarrow> bool \<Rightarrow> hit option res" where
  "GetDynamicSymbolIndexImpl k file info symbol searchForUndefined =
     (if elfClass info = kNone \<or> file = [] then Inr None
      else
        case (dynsym info, dynstr info) of
          (Some dynsymp, Some dynstrp) \<Rightarrow>
            bindE (if \<not> searchForUndefined
                   then bindE (gnu_hash_lookup k file info dynsymp dynstrp symbol) (\<lambda>g.
                          case g of
                            FallThrough \<Rightarrow>
                              mapE (\<lambda>h. case h of None \<Rightarrow> FallThrough | Some x \<Rightarrow> Hit x)
                                (sysv_hash_lookup k file info dynsymp dynstrp symbol)
                          | _ \<Rightarrow> Inr g)
                   else Inr FallThrough)
              (\<lambda>r. case r of
                 Hit x \<Rightarrow> Inr (Some x)
               | ReturnFalse \<Rightarrow> Inr None
               | FallThrough \<Rightarrow> dynsym_scan k file dynsymp dynstrp (dynsym_size info) symbol)
        | _ \<Rightarrow> Inr None)"

definition GetNonDynamicSymbolImpl ::
  "ElfClass \<Rightarrow> bytes \<Rightarrow> ElfInfo \<Rightarrow> bytes \<Rightarrow> nat option res" where
  "GetNonDynamicSymbolImpl k file info symbol =
     (if elfClass info = kNone \<or> file = [] then Inr None
      else
        case (symtab info, strtab info) of
          (Some symtabp, Some strtabp) \<Rightarrow>
            firstE (\<lambda>i.
               bindE (st_name file (symtabp + i * sizeof_Sym k)) (\<lambda>nm.
               bindE (view_eq_cstr file (strtabp + unat nm) symbol) (\<lambda>m.
                 Inr (if m then Some (symtabp + i * sizeof_Sym k) else None))))
              [0..<symtab_size info]
        | _ \<Rightarrow> Inr None)"

text \<open>\<open>sym->st_value - elfInfo.loadBias\<close> for the symbol record at \<open>sp\<close>.\<close>

definition sym_offset :: "ElfClass \<Rightarrow> bytes \<Rightarrow> ElfInfo \<Rightarrow> nat \<Rightarrow> u64 res" where
  "sym_offset k file info sp = mapE (\<lambda>x. x - loadBias info) (st_value k file sp)"

text \<open>The first block of \<open>GetSymbolOffset\<close>: the dynamic lookup, by class.\<close>

definition dynamic_offset :: "bytes \<Rightarrow> ElfInfo \<Rightarrow> bytes \<Rightarrow> u64 option res" where
  "dynamic_offset file info symbol =
     (if elfClass info = kElf32 then
        bindE (GetDynamicSymbolIndexImpl kElf32 file info symbol False) (\<lambda>r.
          case r of None \<Rightarrow> Inr None
          | Some (index, sp) \<Rightarrow> mapE Some (sym_offset kElf32 file info sp))
      else if elfClass info = kElf64 then
        bindE (GetDynamicSymbolIndexImpl kElf64 file info symbol False) (\<lambda>r.
          case r of None \<Rightarrow> Inr None
          | Some (index, sp) \<Rightarrow> mapE Some (sym_offset kElf64 file info sp))
      else Inr None)"

text \<open>The second block: the search of \<open>symtab\<close>.\<close>

definition symtab_offset :: "bytes \<Rightarrow> ElfInfo \<Rightarrow> bytes \<Rightarrow> u64 option res" where
  "symtab_offset file info symbol =
     (if symtab info \<noteq> None \<and> strtab info \<noteq> None then
        if elfClass info = kElf32 then
          bindE (GetNonDynamicSymbolImpl kElf32 file info symbol) (\<lambda>r.
            case r of None \<Rightarrow> Inr None
            | Some sp \<Rightarrow> mapE Some (sym_offset kElf32 file info sp))
        else if elfClass info = kElf64 then
          bindE (GetNonDynamicSymbolImpl kElf64 file info symbol) (\<lambda>r.
            case r of None \<Rightarrow> Inr None
            | Some sp \<Rightarrow> mapE Some (sym_offset kElf64 file info sp))
        else Inr None
      else Inr None)"

definition GetSymbolOffset :: "ElfView \<Rightarrow> bytes \<Rightarrow> u64 res" where
  "GetSymbolOffset v symbol =
     (if symbol = [] then Inr 0
      else
        case mElfInfo v of
          None \<Rightarrow> Inl NullDeref
        | Some elfInfo \<Rightarrow>
            bindE (dynamic_offset (span_bytes (mMemory v)) elfInfo symbol) (\<lambda>d.
              case d of
                Some x \<Rightarrow> Inr x
              | None \<Rightarrow>
                  bindE (symtab_offset (span_bytes (mMemory v)) elfInfo symbol) (\<lambda>s.
                    case s of
                      Some x \<Rightarrow> Inr x
                    | None \<Rightarrow>
                        (case map_of (compressedDebugSymbols elfInfo) symbol of
                           Some value \<Rightarrow> Inr (value - loadBias elfInfo)
                         | None \<Rightarrow> Inr 0))))"


section \<open>Validity and the simple queries\<close>

definition IsValid :: "ElfView \<Rightarrow> bool" where
  "IsValid v =
     (\<not> span_empty (mMemory v) \<and>
      (case mElfInfo v of None \<Rightarrow> False | Some elfInfo \<Rightarrow> elfClass elfInfo \<noteq> kNone))"

definition Detach :: "ElfView \<Rightarrow> ElfView" where
  "Detach v = v\<lparr>mMemory := None, mElfInfo := None, mIsLoaded := False\<rparr>"

definition GetPointerSize :: "ElfView \<Rightarrow> int" where
  "GetPointerSize v =
     (if \<not> IsValid v then 0
      else
        case mElfInfo v of
          None \<Rightarrow> 0
        | Some elfInfo \<Rightarrow>
            if elfClass elfInfo = kElf32 then 4
            else if elfClass elfInfo = kElf64 then 8
            else 0)"

definition GetArchitecture :: "ElfView \<Rightarrow> int" where
  "GetArchitecture v =
     (if \<not> IsValid v then 0
      else case mElfInfo v of None \<Rightarrow> 0 | Some elfInfo \<Rightarrow> uint (machine elfInfo))"

text \<open>
  \<open>GetLoadBias\<close>, \<open>GetLoadedSize\<close> and \<open>GetSoname\<close> read through \<open>mElfInfo\<close> without a
  check.
\<close>

definition GetLoadBias :: "ElfView \<Rightarrow> u64 res" where
  "GetLoadBias v =
     (case mElfInfo v of None \<Rightarrow> Inl NullDeref | Some elfInfo \<Rightarrow> Inr (loadBias elfInfo))"

definition GetLoadedSize :: "ElfView \<Rightarrow> u64 res" where
  "GetLoadedSize v =
     (case mElfInfo v of None \<Rightarrow> Inl NullDeref | Some elfInfo \<Rightarrow> Inr (loadedSize elfInfo))"

definition GetSoname :: "ElfView \<Rightarrow> bytes res" where
  "GetSoname v =
     (case mElfInfo v of None \<Rightarrow> Inl NullDeref | Some elfInfo \<Rightarrow> Inr (soname elfInfo))"

section \<open>Prefix query\<close>

text \<open>One linear scan of \<open>GetFirstSymbolOffsetWithPrefixImpl\<close> over a symbol table.\<close>

definition prefix_scan ::
  "ElfClass \<Rightarrow> bytes \<Rightarrow> nat \<Rightarrow> nat \<Rightarrow> nat \<Rightarrow> bytes \<Rightarrow> nat option res" where
  "prefix_scan k file tab strs n symbolPrefix =
     firstE (\<lambda>i.
        bindE (st_name file (tab + i * sizeof_Sym k)) (\<lambda>nm.
        bindE (strncmp_eq file (strs + unat nm) symbolPrefix) (\<lambda>m.
          Inr (if m then Some (tab + i * sizeof_Sym k) else None))))
       [0..<n]"

definition GetFirstSymbolOffsetWithPrefixImpl ::
  "ElfClass \<Rightarrow> bytes \<Rightarrow> ElfInfo \<Rightarrow> bytes \<Rightarrow> nat option res" where
  "GetFirstSymbolOffsetWithPrefixImpl k file info symbolPrefix =
     bindE (case (dynsym info, dynstr info) of
              (Some dynsymp, Some dynstrp) \<Rightarrow>
                prefix_scan k file dynsymp dynstrp (dynsym_size info) symbolPrefix
            | _ \<Rightarrow> Inr None)
       (\<lambda>r. case r of
          Some sp \<Rightarrow> Inr (Some sp)
        | None \<Rightarrow>
            (case (symtab info, strtab info) of
               (Some symtabp, Some strtabp) \<Rightarrow>
                 prefix_scan k file symtabp strtabp (symtab_size info) symbolPrefix
             | _ \<Rightarrow> Inr None))"

text \<open>The symbol-table part of \<open>GetFirstSymbolOffsetWithPrefix\<close>, by class.\<close>

definition prefix_offset :: "bytes \<Rightarrow> ElfInfo \<Rightarrow> bytes \<Rightarrow> u64 option res" where
  "prefix_offset file info symbolPrefix =
     (if elfClass info = kElf32 then
        bindE (GetFirstSymbolOffsetWithPrefixImpl kElf32 file info symbolPrefix) (\<lambda>r.
          case r of None \<Rightarrow> Inr None
          | Some sp \<Rightarrow> mapE Some (sym_offset kElf32 file info sp))
      else if elfClass info = kElf64 then
        bindE (GetFirstSymbolOffsetWithPrefixImpl kElf64 file info symbolPrefix) (\<lambda>r.
          case r of None \<Rightarrow> Inr None
          | Some sp \<Rightarrow> mapE Some (sym_offset kElf64 file info sp))
      else Inr None)"

definition GetFirstSymbolOffsetWithPrefix :: "ElfView \<Rightarrow> bytes \<Rightarrow> u64 res" where
  "GetFirstSymbolOffsetWithPrefix v symbolPrefix =
     (if symbolPrefix = [] \<or> \<not> IsValid v then Inr 0
      else
        case mElfInfo v of
          None \<Rightarrow> Inr 0
        | Some elfInfo \<Rightarrow>
            bindE (prefix_offset (span_bytes (mMemory v)) elfInfo symbolPrefix) (\<lambda>r.
              case r of
                Some x \<Rightarrow> Inr x
              | None \<Rightarrow>
                  (case find (\<lambda>(key, value). prefix symbolPrefix key)
                          (compressedDebugSymbols elfInfo) of
                     Some (key, value) \<Rightarrow> Inr (value - loadBias elfInfo)
                   | None \<Rightarrow> Inr 0)))"

section \<open>GOT and PLT scan\<close>

definition is_jump_slot :: "ElfClass \<Rightarrow> u64 \<Rightarrow> bool" where
  "is_jump_slot k t =
     (if k = kElf32 then t = R_ARM_JUMP_SLOT \<or> t = R_386_JMP_SLOT
      else t = R_AARCH64_JUMP_SLOT \<or> t = R_X86_64_JUMP_SLOT)"

definition is_data_reloc :: "ElfClass \<Rightarrow> u64 \<Rightarrow> bool" where
  "is_data_reloc k t =
     (if k = kElf32
      then t = R_ARM_ABS32 \<or> t = R_ARM_GLOB_DAT \<or> t = R_386_32 \<or> t = R_386_GLOB_DAT
      else t = R_AARCH64_ABS64 \<or> t = R_AARCH64_GLOB_DAT \<or> t = R_X86_64_64
           \<or> t = R_X86_64_GLOB_DAT)"

text \<open>
  The first loop of each branch of \<open>GetSymbolGotOffset\<close>: over \<open>count\<close> records of
  \<open>recsz\<close> bytes from \<open>tab\<close>, stopping at the first jump slot of \<open>symidx\<close>. Only \<open>r_info\<close> is
  read of a record that does not match.
\<close>

definition scan_relplt ::
  "ElfClass \<Rightarrow> bytes \<Rightarrow> u64 \<Rightarrow> nat \<Rightarrow> ptr \<Rightarrow> nat \<Rightarrow> u32 \<Rightarrow> u64 option res" where
  "scan_relplt k file bias recsz tab count symidx =
     firstE (\<lambda>i.
        bindE (deref tab) (\<lambda>base.
        bindE (r_info k file (base + i * recsz)) (\<lambda>inf.
          if R_SYM k inf = ucast symidx \<and> is_jump_slot k (R_TYPE k inf)
          then mapE (\<lambda>off. Some (off - bias)) (r_offset k file (base + i * recsz))
          else Inr None)))
       [0..<count]"

text \<open>The second loop: every data relocation of \<open>symidx\<close>, appended to \<open>result\<close>.\<close>

definition scan_reldyn ::
  "ElfClass \<Rightarrow> bytes \<Rightarrow> u64 \<Rightarrow> nat \<Rightarrow> ptr \<Rightarrow> nat \<Rightarrow> u32 \<Rightarrow> u64 list \<Rightarrow> u64 list res" where
  "scan_reldyn k file bias recsz tab count symidx result =
     foldE (\<lambda>i acc.
        bindE (deref tab) (\<lambda>base.
        bindE (r_info k file (base + i * recsz)) (\<lambda>inf.
          if R_SYM k inf = ucast symidx \<and> is_data_reloc k (R_TYPE k inf)
          then mapE (\<lambda>off. acc @ [off - bias]) (r_offset k file (base + i * recsz))
          else Inr acc)))
       [0..<count] result"

text \<open>One branch of \<open>GetSymbolGotOffset\<close>: both loops over the tables given.\<close>

definition scan_got ::
  "ElfClass \<Rightarrow> bytes \<Rightarrow> u64 \<Rightarrow> nat \<Rightarrow> ptr \<Rightarrow> nat \<Rightarrow> ptr \<Rightarrow> nat \<Rightarrow> u32 \<Rightarrow> u64 list res" where
  "scan_got k file bias recsz plt plt_count dyn dyn_count symidx =
     bindE (scan_relplt k file bias recsz plt plt_count symidx) (\<lambda>j.
       scan_reldyn k file bias recsz dyn dyn_count symidx
         (case j of None \<Rightarrow> [] | Some off \<Rightarrow> [off]))"

definition GetSymbolGotOffset :: "ElfView \<Rightarrow> bytes \<Rightarrow> u64 list res" where
  "GetSymbolGotOffset v symbol =
     (if symbol = [] then Inr []
      else if \<not> IsValid v then Inr []
      else
        case mElfInfo v of
          None \<Rightarrow> Inr []
        | Some info \<Rightarrow>
            let file = span_bytes (mMemory v) in
            bindE (if elfClass info = kElf32
                   then GetDynamicSymbolIndexImpl kElf32 file info symbol True
                   else if elfClass info = kElf64
                   then GetDynamicSymbolIndexImpl kElf64 file info symbol True
                   else Inr None)
              (\<lambda>dynSymIdx.
                 case dynSymIdx of
                   None \<Rightarrow> Inr []
                 | Some (symidx, unused) \<Rightarrow>
                     if elfClass info = kElf32 then
                       if use_rela info then
                         scan_got kElf32 file (loadBias info) (sizeof_Rela kElf32)
                           (relplt info) (relplt_size info)
                           (reladyn info) (reladyn_size info) symidx
                       else
                         scan_got kElf32 file (loadBias info) (sizeof_Rel kElf32)
                           (relplt info) (relplt_size info)
                           (reldyn info) (reldyn_size info) symidx
                     else if elfClass info = kElf64 then
                       if use_rela info then
                         scan_got kElf64 file (loadBias info) (sizeof_Rela kElf64)
                           (relplt info) (relplt_size info)
                           (reladyn info) (reladyn_size info) symidx
                       else
                         scan_got kElf64 file (loadBias info) (sizeof_Rel kElf64)
                           (relplt info) (relplt_size info)
                           (reldyn info) (reldyn_size info) symidx
                     else Inr []))"

section \<open>MiniDebugInfo\<close>

text \<open>\<open>compressedDebugSymbols.emplace(key, value)\<close>: the first insertion of a key stays.\<close>

definition emplace :: "bytes \<Rightarrow> u64 \<Rightarrow> (bytes \<times> u64) list \<Rightarrow> (bytes \<times> u64) list" where
  "emplace key value m = (case map_of m key of None \<Rightarrow> m @ [(key, value)] | Some x \<Rightarrow> m)"

text \<open>
  The magic test of \<open>ParseMiniDebugInfo\<close>: the bytes are compared in order and the test
  stops at the first one that differs. The first argument is the range from the start of
  the span on.
\<close>

fun bytes_match :: "bytes \<Rightarrow> bytes \<Rightarrow> bool res" where
  "bytes_match m [] = Inr True"
| "bytes_match [] (c # cs) = Inl OutOfRange"
| "bytes_match (b # m) (c # cs) = (if b \<noteq> c then Inr False else bytes_match m cs)"

text \<open>The body of the symbol loops of \<open>ParseDebugSymbol\<close>, over the embedded image.\<close>

definition debug_symbol_step ::
  "ElfClass \<Rightarrow> bytes \<Rightarrow> ElfInfo \<Rightarrow> nat \<Rightarrow> (bytes \<times> u64) list \<Rightarrow> (bytes \<times> u64) list res" where
  "debug_symbol_step k input embedded i m =
     bindE (deref (symtab embedded)) (\<lambda>symtabp.
     bindE (st_name input (symtabp + i * sizeof_Sym k)) (\<lambda>nm.
     bindE (deref (strtab embedded)) (\<lambda>strtabp.
     bindE (read_u8 input (strtabp + unat nm)) (\<lambda>c.
       if c = 0 then Inr m
       else
         bindE (st_value k input (symtabp + i * sizeof_Sym k)) (\<lambda>value.
         bindE (read_cstr input (strtabp + unat nm)) (\<lambda>symname.
           Inr (emplace symname value m)))))))"

definition ParseDebugSymbol :: "bytes \<Rightarrow> ElfInfo \<Rightarrow> ElfInfo res" where
  "ParseDebugSymbol input info =
     (if length input < 64 \<or> take 4 input \<noteq> ELFMAG then Inr info
      else
        bindE (if uint (input ! 4) = kElf32
               then InitElfInfo kElf32 input (ElfInfo_default\<lparr>elfClass := kElf32\<rparr>) False
               else if uint (input ! 4) = kElf64
               then InitElfInfo kElf64 input (ElfInfo_default\<lparr>elfClass := kElf64\<rparr>) False
               else Inr (ElfInfo_default\<lparr>elfClass := uint (input ! 4)\<rparr>))
          (\<lambda>embedded.
             if elfClass embedded = kElf32 then
               bindE (foldE (debug_symbol_step kElf32 input embedded)
                        [0..<symtab_size embedded] (compressedDebugSymbols info))
                 (\<lambda>m. Inr (info\<lparr>compressedDebugSymbols := m\<rparr>))
             else if elfClass embedded = kElf64 then
               bindE (foldE (debug_symbol_step kElf64 input embedded)
                        [0..<symtab_size embedded] (compressedDebugSymbols info))
                 (\<lambda>m. Inr (info\<lparr>compressedDebugSymbols := m\<rparr>))
             else Inr info))"

text \<open>
  \<open>util::DecodeXzData\<close> is the external decompressor. It is the parameter \<open>decode\<close>:
  \<open>None\<close> when it reports failure, otherwise the decompressed bytes. \<open>input\<close> is the span
  (offset, size) inside \<open>file\<close>.
\<close>

definition ParseMiniDebugInfo ::
  "(bytes \<Rightarrow> bytes option) \<Rightarrow> bytes \<Rightarrow> nat \<times> nat \<Rightarrow> ElfInfo \<Rightarrow> ElfInfo res" where
  "ParseMiniDebugInfo decode file input info =
     (if snd input < 6 then Inr info
      else
        bindE (bytes_match (drop (fst input) file) [0xFD, 0x37, 0x7A, 0x58, 0x5A]) (\<lambda>magic.
          if \<not> magic then Inr info
          else
            bindE (read_bytes file (fst input) (snd input)) (\<lambda>data.
              case decode data of
                None \<Rightarrow> Inr info
              | Some decompressed \<Rightarrow>
                  if decompressed = [] then Inr info
                  else ParseDebugSymbol decompressed info)))"

section \<open>Attach\<close>

text \<open>
  The part shared by both attach operations once the range has passed the size and
  magic checks: the class byte is stored as it is and \<open>InitElfInfo\<close> runs for the two
  known classes.
\<close>

definition attach_info :: "bytes \<Rightarrow> bool \<Rightarrow> ElfInfo res" where
  "attach_info mem isLoaded =
     (if uint (mem ! 4) = kElf32
      then InitElfInfo kElf32 mem (ElfInfo_default\<lparr>elfClass := kElf32\<rparr>) isLoaded
      else if uint (mem ! 4) = kElf64
      then InitElfInfo kElf64 mem (ElfInfo_default\<lparr>elfClass := kElf64\<rparr>) isLoaded
      else Inr (ElfInfo_default\<lparr>elfClass := uint (mem ! 4)\<rparr>))"

definition AttachFileMemMapping ::
  "(bytes \<Rightarrow> bytes option) \<Rightarrow> ElfView \<Rightarrow> bytes option \<Rightarrow> ElfView res" where
  "AttachFileMemMapping decode v fileMap =
     (case fileMap of
        None \<Rightarrow>
          Inr (v\<lparr>mMemory := fileMap, mIsLoaded := False, mElfInfo := Some ElfInfo_default\<rparr>)
      | Some mem \<Rightarrow>
          if length mem < 64 \<or> take 4 mem \<noteq> ELFMAG then
            Inr (v\<lparr>mMemory := fileMap, mIsLoaded := False, mElfInfo := Some ElfInfo_default\<rparr>)
          else
            bindE (attach_info mem False) (\<lambda>elfInfo.
            bindE (if snd (miniDebugInfo elfInfo) \<noteq> 0
                   then ParseMiniDebugInfo decode mem (miniDebugInfo elfInfo) elfInfo
                   else Inr elfInfo)
              (\<lambda>elfInfo'.
                 Inr (v\<lparr>mMemory := fileMap, mIsLoaded := False, mElfInfo := Some elfInfo'\<rparr>))))"

definition AttachLoadedMemoryView :: "ElfView \<Rightarrow> bytes option \<Rightarrow> ElfView res" where
  "AttachLoadedMemoryView v memory =
     (case memory of
        None \<Rightarrow>
          Inr (v\<lparr>mMemory := memory, mIsLoaded := True, mElfInfo := Some ElfInfo_default\<rparr>)
      | Some mem \<Rightarrow>
          if length mem < 64 \<or> take 4 mem \<noteq> ELFMAG then
            Inr (v\<lparr>mMemory := memory, mIsLoaded := True, mElfInfo := Some ElfInfo_default\<rparr>)
          else
            bindE (attach_info mem True) (\<lambda>elfInfo.
              Inr (v\<lparr>mMemory := memory, mIsLoaded := True, mElfInfo := Some elfInfo\<rparr>)))"

section \<open>Specification-level definitions and test images\<close>



text \<open>
  A range that fails the structural checks of attach: null data, fewer than 64 bytes, or
  a wrong magic.
\<close>

definition structurally_invalid :: "bytes option \<Rightarrow> bool" where
  "structurally_invalid m =
     (case m of None \<Rightarrow> True | Some bs \<Rightarrow> length bs < 64 \<or> take 4 bs \<noteq> ELFMAG)"

text \<open>The miss sentinels of the queries that do not consult \<open>IsValid\<close>, and of the GOT scan.\<close>

definition queries_miss :: "ElfView \<Rightarrow> bytes \<Rightarrow> bool" where
  "queries_miss v name =
     (mElfInfo v = Some ElfInfo_default \<and>
      GetLoadBias v = Inr 0 \<and> GetLoadedSize v = Inr 0 \<and> GetSoname v = Inr [] \<and>
      GetSymbolOffset v name = Inr 0 \<and> GetSymbolGotOffset v name = Inr [])"

text \<open>A 64-byte range with the ELF magic and class byte 3.\<close>

definition class3_image :: bytes where
  "class3_image = ELFMAG @ 3 # replicate 59 0"

text \<open>
  An Elf64 image of 232 bytes: the header, one \<open>PT_DYNAMIC\<close> program header at offset 64,
  the dynamic section at offset 120 with \<open>DT_PLTREL = DT_RELA\<close>, \<open>DT_JMPREL = 184\<close>,
  \<open>DT_PLTRELSZ = 48\<close> and \<open>DT_NULL\<close>, and at offset 184 two \<open>Elf64_Rela\<close> records of 24
  bytes. It has no section headers.
\<close>

definition rela_plt_image :: bytes where
  "rela_plt_image =
     [0x7f, 0x45, 0x4c, 0x46, 0x02, 0x01, 0x01, 0x00, 0x00, 0x00, 0x00, 0x00, 0x00, 0x00, 0x00, 0x00,
      0x03, 0x00, 0xb7, 0x00, 0x01, 0x00, 0x00, 0x00, 0x00, 0x00, 0x00, 0x00, 0x00, 0x00, 0x00, 0x00,
      0x40, 0x00, 0x00, 0x00, 0x00, 0x00, 0x00, 0x00, 0x00, 0x00, 0x00, 0x00, 0x00, 0x00, 0x00, 0x00,
      0x00, 0x00, 0x00, 0x00, 0x40, 0x00, 0x38, 0x00, 0x01, 0x00, 0x40, 0x00, 0x00, 0x00, 0x00, 0x00,
      0x02, 0x00, 0x00, 0x00, 0x04, 0x00, 0x00, 0x00, 0x78, 0x00, 0x00, 0x00, 0x00, 0x00, 0x00, 0x00,
      0x78, 0x00, 0x00, 0x00, 0x00, 0x00, 0x00, 0x00, 0x78, 0x00, 0x00, 0x00, 0x00, 0x00, 0x00, 0x00,
      0x40, 0x00, 0x00, 0x00, 0x00, 0x00, 0x00, 0x00, 0x40, 0x00, 0x00, 0x00, 0x00, 0x00, 0x00, 0x00,
      0x08, 0x00, 0x00, 0x00, 0x00, 0x00, 0x00, 0x00, 0x14, 0x00, 0x00, 0x00, 0x00, 0x00, 0x00, 0x00,
      0x07, 0x00, 0x00, 0x00, 0x00, 0x00, 0x00, 0x00, 0x17, 0x00, 0x00, 0x00, 0x00, 0x00, 0x00, 0x00,
      0xb8, 0x00, 0x00, 0x00, 0x00, 0x00, 0x00, 0x00, 0x02, 0x00, 0x00, 0x00, 0x00, 0x00, 0x00, 0x00,
      0x30, 0x00, 0x00, 0x00, 0x00, 0x00, 0x00, 0x00, 0x00, 0x00, 0x00, 0x00, 0x00, 0x00, 0x00, 0x00,
      0x00, 0x00, 0x00, 0x00, 0x00, 0x00, 0x00, 0x00, 0x08, 0x30, 0x00, 0x00, 0x00, 0x00, 0x00, 0x00,
      0x02, 0x04, 0x00, 0x00, 0x01, 0x00, 0x00, 0x00, 0x00, 0x00, 0x00, 0x00, 0x00, 0x00, 0x00, 0x00,
      0x10, 0x30, 0x00, 0x00, 0x00, 0x00, 0x00, 0x00, 0x02, 0x04, 0x00, 0x00, 0x02, 0x00, 0x00, 0x00,
      0x00, 0x00, 0x00, 0x00, 0x00, 0x00, 0x00, 0x00]"

text \<open>
  The symbol record at address \<open>sp\<close> carries the name \<open>name\<close>: its \<open>st_name\<close> is readable and
  the C string at that offset of the string table \<open>strs\<close> is \<open>name\<close>.
\<close>

definition sym_named :: "bytes \<Rightarrow> nat \<Rightarrow> nat \<Rightarrow> bytes \<Rightarrow> bool" where
  "sym_named file strs sp name =
     (case st_name file sp of
        Inl e \<Rightarrow> False
      | Inr nm \<Rightarrow> read_cstr file (strs + unat nm) = Inr name)"

text \<open>
  The symbol record at address \<open>sp\<close> passes one of the two name tests of the lookups: its
  name is the C string \<open>name\<close>, or it passes the \<open>strncmp\<close>-and-terminator test of the
  fallback scan. For a name without NUL bytes both say that the record carries the name.
\<close>

definition sym_matched :: "bytes \<Rightarrow> nat \<Rightarrow> nat \<Rightarrow> bytes \<Rightarrow> bool" where
  "sym_matched file strs sp name =
     (case st_name file sp of
        Inl e \<Rightarrow> False
      | Inr nm \<Rightarrow>
          read_cstr file (strs + unat nm) = Inr name \<or>
          name_matches file (strs + unat nm) name = Inr True)"

text \<open>
  Scenario S1: an Elf64 x86-64 shared object of 584 bytes with one \<open>PT_LOAD\<close> header at
  \<open>p_vaddr = 0x1000\<close>, a \<open>.dynsym\<close> at offset 120 with the null symbol, \<open>foo\<close>
  (\<open>st_value = 0x1234\<close>) and \<open>bar\<close> (\<open>st_value = 0x1300\<close>), the \<open>.dynstr\<close> at 192, a SysV
  \<open>.hash\<close> at 204 with one bucket, and five section headers from offset 264.
\<close>

definition s1_image :: bytes where
  "s1_image =
     [0x7f, 0x45, 0x4c, 0x46, 0x02, 0x01, 0x01, 0x00, 0x00, 0x00, 0x00, 0x00, 0x00, 0x00, 0x00, 0x00,
     0x03, 0x00, 0x3e, 0x00, 0x01, 0x00, 0x00, 0x00, 0x00, 0x00, 0x00, 0x00, 0x00, 0x00, 0x00, 0x00,
     0x40, 0x00, 0x00, 0x00, 0x00, 0x00, 0x00, 0x00, 0x08, 0x01, 0x00, 0x00, 0x00, 0x00, 0x00, 0x00,
     0x00, 0x00, 0x00, 0x00, 0x40, 0x00, 0x38, 0x00, 0x01, 0x00, 0x40, 0x00, 0x05, 0x00, 0x04, 0x00,
     0x01, 0x00, 0x00, 0x00, 0x05, 0x00, 0x00, 0x00, 0x00, 0x00, 0x00, 0x00, 0x00, 0x00, 0x00, 0x00,
     0x00, 0x10, 0x00, 0x00, 0x00, 0x00, 0x00, 0x00, 0x00, 0x10, 0x00, 0x00, 0x00, 0x00, 0x00, 0x00,
     0x08, 0x01, 0x00, 0x00, 0x00, 0x00, 0x00, 0x00, 0x00, 0x08, 0x00, 0x00, 0x00, 0x00, 0x00, 0x00,
     0x08, 0x00, 0x00, 0x00, 0x00, 0x00, 0x00, 0x00, 0x00, 0x00, 0x00, 0x00, 0x00, 0x00, 0x00, 0x00,
     0x00, 0x00, 0x00, 0x00, 0x00, 0x00, 0x00, 0x00, 0x00, 0x00, 0x00, 0x00, 0x00, 0x00, 0x00, 0x00,
     0x01, 0x00, 0x00, 0x00, 0x12, 0x00, 0x01, 0x00, 0x34, 0x12, 0x00, 0x00, 0x00, 0x00, 0x00, 0x00,
     0x00, 0x00, 0x00, 0x00, 0x00, 0x00, 0x00, 0x00, 0x05, 0x00, 0x00, 0x00, 0x12, 0x00, 0x01, 0x00,
     0x00, 0x13, 0x00, 0x00, 0x00, 0x00, 0x00, 0x00, 0x00, 0x00, 0x00, 0x00, 0x00, 0x00, 0x00, 0x00,
     0x00, 0x66, 0x6f, 0x6f, 0x00, 0x62, 0x61, 0x72, 0x00, 0x00, 0x00, 0x00, 0x01, 0x00, 0x00, 0x00,
     0x03, 0x00, 0x00, 0x00, 0x02, 0x00, 0x00, 0x00, 0x00, 0x00, 0x00, 0x00, 0x00, 0x00, 0x00, 0x00,
     0x01, 0x00, 0x00, 0x00, 0x00, 0x2e, 0x64, 0x79, 0x6e, 0x73, 0x79, 0x6d, 0x00, 0x2e, 0x64, 0x79,
     0x6e, 0x73, 0x74, 0x72, 0x00, 0x2e, 0x68, 0x61, 0x73, 0x68, 0x00, 0x2e, 0x73, 0x68, 0x73, 0x74,
     0x72, 0x74, 0x61, 0x62, 0x00, 0x00, 0x00, 0x00, 0x00, 0x00, 0x00, 0x00, 0x00, 0x00, 0x00, 0x00,
     0x00, 0x00, 0x00, 0x00, 0x00, 0x00, 0x00, 0x00, 0x00, 0x00, 0x00, 0x00, 0x00, 0x00, 0x00, 0x00,
     0x00, 0x00, 0x00, 0x00, 0x00, 0x00, 0x00, 0x00, 0x00, 0x00, 0x00, 0x00, 0x00, 0x00, 0x00, 0x00,
     0x00, 0x00, 0x00, 0x00, 0x00, 0x00, 0x00, 0x00, 0x01, 0x00, 0x00, 0x00, 0x00, 0x00, 0x00, 0x00,
     0x00, 0x00, 0x00, 0x00, 0x00, 0x00, 0x00, 0x00, 0x01, 0x00, 0x00, 0x00, 0x0b, 0x00, 0x00, 0x00,
     0x00, 0x00, 0x00, 0x00, 0x00, 0x00, 0x00, 0x00, 0x78, 0x00, 0x00, 0x00, 0x00, 0x00, 0x00, 0x00,
     0x78, 0x00, 0x00, 0x00, 0x00, 0x00, 0x00, 0x00, 0x48, 0x00, 0x00, 0x00, 0x00, 0x00, 0x00, 0x00,
     0x00, 0x00, 0x00, 0x00, 0x00, 0x00, 0x00, 0x00, 0x01, 0x00, 0x00, 0x00, 0x00, 0x00, 0x00, 0x00,
     0x00, 0x00, 0x00, 0x00, 0x00, 0x00, 0x00, 0x00, 0x09, 0x00, 0x00, 0x00, 0x03, 0x00, 0x00, 0x00,
     0x00, 0x00, 0x00, 0x00, 0x00, 0x00, 0x00, 0x00, 0xc0, 0x00, 0x00, 0x00, 0x00, 0x00, 0x00, 0x00,
     0xc0, 0x00, 0x00, 0x00, 0x00, 0x00, 0x00, 0x00, 0x09, 0x00, 0x00, 0x00, 0x00, 0x00, 0x00, 0x00,
     0x00, 0x00, 0x00, 0x00, 0x00, 0x00, 0x00, 0x00, 0x01, 0x00, 0x00, 0x00, 0x00, 0x00, 0x00, 0x00,
     0x00, 0x00, 0x00, 0x00, 0x00, 0x00, 0x00, 0x00, 0x11, 0x00, 0x00, 0x00, 0x05, 0x00, 0x00, 0x00,
     0x00, 0x00, 0x00, 0x00, 0x00, 0x00, 0x00, 0x00, 0xcc, 0x00, 0x00, 0x00, 0x00, 0x00, 0x00, 0x00,
     0xcc, 0x00, 0x00, 0x00, 0x00, 0x00, 0x00, 0x00, 0x18, 0x00, 0x00, 0x00, 0x00, 0x00, 0x00, 0x00,
     0x00, 0x00, 0x00, 0x00, 0x00, 0x00, 0x00, 0x00, 0x01, 0x00, 0x00, 0x00, 0x00, 0x00, 0x00, 0x00,
     0x00, 0x00, 0x00, 0x00, 0x00, 0x00, 0x00, 0x00, 0x17, 0x00, 0x00, 0x00, 0x03, 0x00, 0x00, 0x00,
     0x00, 0x00, 0x00, 0x00, 0x00, 0x00, 0x00, 0x00, 0x00, 0x00, 0x00, 0x00, 0x00, 0x00, 0x00, 0x00,
     0xe4, 0x00, 0x00, 0x00, 0x00, 0x00, 0x00, 0x00, 0x21, 0x00, 0x00, 0x00, 0x00, 0x00, 0x00, 0x00,
     0x00, 0x00, 0x00, 0x00, 0x00, 0x00, 0x00, 0x00, 0x01, 0x00, 0x00, 0x00, 0x00, 0x00, 0x00, 0x00,
     0x00, 0x00, 0x00, 0x00, 0x00, 0x00, 0x00, 0x00]"

text \<open>The view that attach builds for it (see \<open>attach_s1_image\<close>).\<close>

definition s1_info :: ElfInfo where
  "s1_info = ElfInfo_default
     \<lparr> elfClass := kElf64, machine := 62, loadBias := 0x1000, loadedSize := 0x800,
       sysv_hash := Some 204, sysv_hash_nbucket := 1, sysv_hash_nchain := 3,
       sysv_hash_bucket := Some 212, sysv_hash_chain := Some 216,
       dynsym := Some 120, dynsym_size := 3, dynstr := Some 192 \<rparr>"

definition s1_view :: ElfView where
  "s1_view = \<lparr> mMemory = Some s1_image, mIsLoaded = False, mElfInfo = Some s1_info \<rparr>"

text \<open>
  Scenario S2: an Elf32 ARM shared object of 456 bytes with \<open>PT_LOAD\<close> at
  \<open>p_vaddr = 0x1000\<close> and a dynamic section with \<open>DT_PLTREL = DT_REL\<close>. Its \<open>.dynsym\<close> at
  offset 204 holds the null symbol and the imports \<open>malloc\<close> (index 1) and \<open>free\<close>
  (index 2). The PLT relocations at offset 164 are two \<open>R_ARM_JUMP_SLOT\<close> records, both
  of \<open>malloc\<close>, with \<open>r_offset\<close> 0x3008 and 0x300c. The data relocations at offset 180 are
  \<open>R_ARM_GLOB_DAT\<close> of \<open>malloc\<close> at 0x4010, \<open>R_ARM_GLOB_DAT\<close> of \<open>free\<close> at 0x4014 and
  \<open>R_ARM_ABS32\<close> of \<open>malloc\<close> at 0x4018.
\<close>

definition s2_image :: bytes where
  "s2_image =
     [0x7f, 0x45, 0x4c, 0x46, 0x01, 0x01, 0x01, 0x00, 0x00, 0x00, 0x00, 0x00, 0x00, 0x00, 0x00, 0x00,
     0x03, 0x00, 0x28, 0x00, 0x01, 0x00, 0x00, 0x00, 0x00, 0x00, 0x00, 0x00, 0x34, 0x00, 0x00, 0x00,
     0x28, 0x01, 0x00, 0x00, 0x00, 0x00, 0x00, 0x00, 0x34, 0x00, 0x20, 0x00, 0x02, 0x00, 0x28, 0x00,
     0x04, 0x00, 0x03, 0x00, 0x01, 0x00, 0x00, 0x00, 0x00, 0x00, 0x00, 0x00, 0x00, 0x10, 0x00, 0x00,
     0x00, 0x10, 0x00, 0x00, 0x28, 0x01, 0x00, 0x00, 0x00, 0x40, 0x00, 0x00, 0x05, 0x00, 0x00, 0x00,
     0x04, 0x00, 0x00, 0x00, 0x02, 0x00, 0x00, 0x00, 0x74, 0x00, 0x00, 0x00, 0x74, 0x00, 0x00, 0x00,
     0x74, 0x00, 0x00, 0x00, 0x30, 0x00, 0x00, 0x00, 0x30, 0x00, 0x00, 0x00, 0x06, 0x00, 0x00, 0x00,
     0x04, 0x00, 0x00, 0x00, 0x14, 0x00, 0x00, 0x00, 0x11, 0x00, 0x00, 0x00, 0x17, 0x00, 0x00, 0x00,
     0xa4, 0x00, 0x00, 0x00, 0x02, 0x00, 0x00, 0x00, 0x10, 0x00, 0x00, 0x00, 0x11, 0x00, 0x00, 0x00,
     0xb4, 0x00, 0x00, 0x00, 0x12, 0x00, 0x00, 0x00, 0x18, 0x00, 0x00, 0x00, 0x00, 0x00, 0x00, 0x00,
     0x00, 0x00, 0x00, 0x00, 0x08, 0x30, 0x00, 0x00, 0x16, 0x01, 0x00, 0x00, 0x0c, 0x30, 0x00, 0x00,
     0x16, 0x01, 0x00, 0x00, 0x10, 0x40, 0x00, 0x00, 0x15, 0x01, 0x00, 0x00, 0x14, 0x40, 0x00, 0x00,
     0x15, 0x02, 0x00, 0x00, 0x18, 0x40, 0x00, 0x00, 0x02, 0x01, 0x00, 0x00, 0x00, 0x00, 0x00, 0x00,
     0x00, 0x00, 0x00, 0x00, 0x00, 0x00, 0x00, 0x00, 0x00, 0x00, 0x00, 0x00, 0x01, 0x00, 0x00, 0x00,
     0x00, 0x00, 0x00, 0x00, 0x00, 0x00, 0x00, 0x00, 0x12, 0x00, 0x00, 0x00, 0x08, 0x00, 0x00, 0x00,
     0x00, 0x00, 0x00, 0x00, 0x00, 0x00, 0x00, 0x00, 0x12, 0x00, 0x00, 0x00, 0x00, 0x6d, 0x61, 0x6c,
     0x6c, 0x6f, 0x63, 0x00, 0x66, 0x72, 0x65, 0x65, 0x00, 0x00, 0x00, 0x00, 0x00, 0x2e, 0x64, 0x79,
     0x6e, 0x73, 0x79, 0x6d, 0x00, 0x2e, 0x64, 0x79, 0x6e, 0x73, 0x74, 0x72, 0x00, 0x2e, 0x73, 0x68,
     0x73, 0x74, 0x72, 0x74, 0x61, 0x62, 0x00, 0x00, 0x00, 0x00, 0x00, 0x00, 0x00, 0x00, 0x00, 0x00,
     0x00, 0x00, 0x00, 0x00, 0x00, 0x00, 0x00, 0x00, 0x00, 0x00, 0x00, 0x00, 0x00, 0x00, 0x00, 0x00,
     0x00, 0x00, 0x00, 0x00, 0x00, 0x00, 0x00, 0x00, 0x01, 0x00, 0x00, 0x00, 0x00, 0x00, 0x00, 0x00,
     0x01, 0x00, 0x00, 0x00, 0x0b, 0x00, 0x00, 0x00, 0x00, 0x00, 0x00, 0x00, 0xcc, 0x00, 0x00, 0x00,
     0xcc, 0x00, 0x00, 0x00, 0x30, 0x00, 0x00, 0x00, 0x00, 0x00, 0x00, 0x00, 0x00, 0x00, 0x00, 0x00,
     0x01, 0x00, 0x00, 0x00, 0x00, 0x00, 0x00, 0x00, 0x09, 0x00, 0x00, 0x00, 0x03, 0x00, 0x00, 0x00,
     0x00, 0x00, 0x00, 0x00, 0xfc, 0x00, 0x00, 0x00, 0xfc, 0x00, 0x00, 0x00, 0x0d, 0x00, 0x00, 0x00,
     0x00, 0x00, 0x00, 0x00, 0x00, 0x00, 0x00, 0x00, 0x01, 0x00, 0x00, 0x00, 0x00, 0x00, 0x00, 0x00,
     0x11, 0x00, 0x00, 0x00, 0x03, 0x00, 0x00, 0x00, 0x00, 0x00, 0x00, 0x00, 0x00, 0x00, 0x00, 0x00,
     0x0c, 0x01, 0x00, 0x00, 0x1b, 0x00, 0x00, 0x00, 0x00, 0x00, 0x00, 0x00, 0x00, 0x00, 0x00, 0x00,
     0x01, 0x00, 0x00, 0x00, 0x00, 0x00, 0x00, 0x00]"

definition s2_info :: ElfInfo where
  "s2_info = ElfInfo_default
     \<lparr> elfClass := kElf32, machine := 40, loadBias := 0x1000, loadedSize := 0x4000,
       dynsym := Some 204, dynsym_size := 3, dynstr := Some 252,
       reldyn := Some 180, reldyn_size := 3, relplt := Some 164, relplt_size := 2 \<rparr>"

definition s2_view :: ElfView where
  "s2_view = \<lparr> mMemory = Some s2_image, mIsLoaded = False, mElfInfo = Some s2_info \<rparr>"

text \<open>
  The same object with one PLT relocation and a dynamic section that has \<open>DT_PLTRELSZ = 8\<close>
  but no \<open>DT_JMPREL\<close> (440 bytes; \<open>.dynsym\<close> at 188, \<open>.dynstr\<close> at 236, data relocations
  at 164).
\<close>

definition pltrelsz_only_image :: bytes where
  "pltrelsz_only_image =
     [0x7f, 0x45, 0x4c, 0x46, 0x01, 0x01, 0x01, 0x00, 0x00, 0x00, 0x00, 0x00, 0x00, 0x00, 0x00, 0x00,
     0x03, 0x00, 0x28, 0x00, 0x01, 0x00, 0x00, 0x00, 0x00, 0x00, 0x00, 0x00, 0x34, 0x00, 0x00, 0x00,
     0x18, 0x01, 0x00, 0x00, 0x00, 0x00, 0x00, 0x00, 0x34, 0x00, 0x20, 0x00, 0x02, 0x00, 0x28, 0x00,
     0x04, 0x00, 0x03, 0x00, 0x01, 0x00, 0x00, 0x00, 0x00, 0x00, 0x00, 0x00, 0x00, 0x10, 0x00, 0x00,
     0x00, 0x10, 0x00, 0x00, 0x18, 0x01, 0x00, 0x00, 0x00, 0x40, 0x00, 0x00, 0x05, 0x00, 0x00, 0x00,
     0x04, 0x00, 0x00, 0x00, 0x02, 0x00, 0x00, 0x00, 0x74, 0x00, 0x00, 0x00, 0x74, 0x00, 0x00, 0x00,
     0x74, 0x00, 0x00, 0x00, 0x28, 0x00, 0x00, 0x00, 0x28, 0x00, 0x00, 0x00, 0x06, 0x00, 0x00, 0x00,
     0x04, 0x00, 0x00, 0x00, 0x14, 0x00, 0x00, 0x00, 0x11, 0x00, 0x00, 0x00, 0x02, 0x00, 0x00, 0x00,
     0x08, 0x00, 0x00, 0x00, 0x11, 0x00, 0x00, 0x00, 0xa4, 0x00, 0x00, 0x00, 0x12, 0x00, 0x00, 0x00,
     0x18, 0x00, 0x00, 0x00, 0x00, 0x00, 0x00, 0x00, 0x00, 0x00, 0x00, 0x00, 0x08, 0x30, 0x00, 0x00,
     0x16, 0x01, 0x00, 0x00, 0x10, 0x40, 0x00, 0x00, 0x15, 0x01, 0x00, 0x00, 0x14, 0x40, 0x00, 0x00,
     0x15, 0x02, 0x00, 0x00, 0x18, 0x40, 0x00, 0x00, 0x02, 0x01, 0x00, 0x00, 0x00, 0x00, 0x00, 0x00,
     0x00, 0x00, 0x00, 0x00, 0x00, 0x00, 0x00, 0x00, 0x00, 0x00, 0x00, 0x00, 0x01, 0x00, 0x00, 0x00,
     0x00, 0x00, 0x00, 0x00, 0x00, 0x00, 0x00, 0x00, 0x12, 0x00, 0x00, 0x00, 0x08, 0x00, 0x00, 0x00,
     0x00, 0x00, 0x00, 0x00, 0x00, 0x00, 0x00, 0x00, 0x12, 0x00, 0x00, 0x00, 0x00, 0x6d, 0x61, 0x6c,
     0x6c, 0x6f, 0x63, 0x00, 0x66, 0x72, 0x65, 0x65, 0x00, 0x00, 0x00, 0x00, 0x00, 0x2e, 0x64, 0x79,
     0x6e, 0x73, 0x79, 0x6d, 0x00, 0x2e, 0x64, 0x79, 0x6e, 0x73, 0x74, 0x72, 0x00, 0x2e, 0x73, 0x68,
     0x73, 0x74, 0x72, 0x74, 0x61, 0x62, 0x00, 0x00, 0x00, 0x00, 0x00, 0x00, 0x00, 0x00, 0x00, 0x00,
     0x00, 0x00, 0x00, 0x00, 0x00, 0x00, 0x00, 0x00, 0x00, 0x00, 0x00, 0x00, 0x00, 0x00, 0x00, 0x00,
     0x00, 0x00, 0x00, 0x00, 0x00, 0x00, 0x00, 0x00, 0x01, 0x00, 0x00, 0x00, 0x00, 0x00, 0x00, 0x00,
     0x01, 0x00, 0x00, 0x00, 0x0b, 0x00, 0x00, 0x00, 0x00, 0x00, 0x00, 0x00, 0xbc, 0x00, 0x00, 0x00,
     0xbc, 0x00, 0x00, 0x00, 0x30, 0x00, 0x00, 0x00, 0x00, 0x00, 0x00, 0x00, 0x00, 0x00, 0x00, 0x00,
     0x01, 0x00, 0x00, 0x00, 0x00, 0x00, 0x00, 0x00, 0x09, 0x00, 0x00, 0x00, 0x03, 0x00, 0x00, 0x00,
     0x00, 0x00, 0x00, 0x00, 0xec, 0x00, 0x00, 0x00, 0xec, 0x00, 0x00, 0x00, 0x0d, 0x00, 0x00, 0x00,
     0x00, 0x00, 0x00, 0x00, 0x00, 0x00, 0x00, 0x00, 0x01, 0x00, 0x00, 0x00, 0x00, 0x00, 0x00, 0x00,
     0x11, 0x00, 0x00, 0x00, 0x03, 0x00, 0x00, 0x00, 0x00, 0x00, 0x00, 0x00, 0x00, 0x00, 0x00, 0x00,
     0xfc, 0x00, 0x00, 0x00, 0x1b, 0x00, 0x00, 0x00, 0x00, 0x00, 0x00, 0x00, 0x00, 0x00, 0x00, 0x00,
     0x01, 0x00, 0x00, 0x00, 0x00, 0x00, 0x00, 0x00]"

definition pltrelsz_only_info :: ElfInfo where
  "pltrelsz_only_info = ElfInfo_default
     \<lparr> elfClass := kElf32, machine := 40, loadBias := 0x1000, loadedSize := 0x4000,
       dynsym := Some 188, dynsym_size := 3, dynstr := Some 236,
       reldyn := Some 164, reldyn_size := 3, relplt_size := 1 \<rparr>"

definition pltrelsz_only_view :: ElfView where
  "pltrelsz_only_view =
     \<lparr> mMemory = Some pltrelsz_only_image, mIsLoaded = False,
       mElfInfo = Some pltrelsz_only_info \<rparr>"

text \<open>
  An Elf64 AArch64 shared object of 492 bytes with \<open>PT_LOAD\<close> at \<open>p_vaddr = 0\<close>. Its
  \<open>.dynsym\<close> at offset 120 holds the null symbol, the import \<open>puts\<close> (undefined,
  \<open>st_value = 0\<close>) and the export \<open>puts_hook\<close> (\<open>st_value = 0x1234\<close>); \<open>.dynstr\<close> is at 192.
\<close>

definition puts_image :: bytes where
  "puts_image =
     [0x7f, 0x45, 0x4c, 0x46, 0x02, 0x01, 0x01, 0x00, 0x00, 0x00, 0x00, 0x00, 0x00, 0x00, 0x00, 0x00,
     0x03, 0x00, 0xb7, 0x00, 0x01, 0x00, 0x00, 0x00, 0x00, 0x00, 0x00, 0x00, 0x00, 0x00, 0x00, 0x00,
     0x40, 0x00, 0x00, 0x00, 0x00, 0x00, 0x00, 0x00, 0xec, 0x00, 0x00, 0x00, 0x00, 0x00, 0x00, 0x00,
     0x00, 0x00, 0x00, 0x00, 0x40, 0x00, 0x38, 0x00, 0x01, 0x00, 0x40, 0x00, 0x04, 0x00, 0x03, 0x00,
     0x01, 0x00, 0x00, 0x00, 0x05, 0x00, 0x00, 0x00, 0x00, 0x00, 0x00, 0x00, 0x00, 0x00, 0x00, 0x00,
     0x00, 0x00, 0x00, 0x00, 0x00, 0x00, 0x00, 0x00, 0x00, 0x00, 0x00, 0x00, 0x00, 0x00, 0x00, 0x00,
     0xec, 0x00, 0x00, 0x00, 0x00, 0x00, 0x00, 0x00, 0x00, 0x20, 0x00, 0x00, 0x00, 0x00, 0x00, 0x00,
     0x08, 0x00, 0x00, 0x00, 0x00, 0x00, 0x00, 0x00, 0x00, 0x00, 0x00, 0x00, 0x00, 0x00, 0x00, 0x00,
     0x00, 0x00, 0x00, 0x00, 0x00, 0x00, 0x00, 0x00, 0x00, 0x00, 0x00, 0x00, 0x00, 0x00, 0x00, 0x00,
     0x01, 0x00, 0x00, 0x00, 0x12, 0x00, 0x00, 0x00, 0x00, 0x00, 0x00, 0x00, 0x00, 0x00, 0x00, 0x00,
     0x00, 0x00, 0x00, 0x00, 0x00, 0x00, 0x00, 0x00, 0x06, 0x00, 0x00, 0x00, 0x12, 0x00, 0x01, 0x00,
     0x34, 0x12, 0x00, 0x00, 0x00, 0x00, 0x00, 0x00, 0x00, 0x00, 0x00, 0x00, 0x00, 0x00, 0x00, 0x00,
     0x00, 0x70, 0x75, 0x74, 0x73, 0x00, 0x70, 0x75, 0x74, 0x73, 0x5f, 0x68, 0x6f, 0x6f, 0x6b, 0x00,
     0x00, 0x2e, 0x64, 0x79, 0x6e, 0x73, 0x79, 0x6d, 0x00, 0x2e, 0x64, 0x79, 0x6e, 0x73, 0x74, 0x72,
     0x00, 0x2e, 0x73, 0x68, 0x73, 0x74, 0x72, 0x74, 0x61, 0x62, 0x00, 0x00, 0x00, 0x00, 0x00, 0x00,
     0x00, 0x00, 0x00, 0x00, 0x00, 0x00, 0x00, 0x00, 0x00, 0x00, 0x00, 0x00, 0x00, 0x00, 0x00, 0x00,
     0x00, 0x00, 0x00, 0x00, 0x00, 0x00, 0x00, 0x00, 0x00, 0x00, 0x00, 0x00, 0x00, 0x00, 0x00, 0x00,
     0x00, 0x00, 0x00, 0x00, 0x00, 0x00, 0x00, 0x00, 0x00, 0x00, 0x00, 0x00, 0x01, 0x00, 0x00, 0x00,
     0x00, 0x00, 0x00, 0x00, 0x00, 0x00, 0x00, 0x00, 0x00, 0x00, 0x00, 0x00, 0x01, 0x00, 0x00, 0x00,
     0x0b, 0x00, 0x00, 0x00, 0x00, 0x00, 0x00, 0x00, 0x00, 0x00, 0x00, 0x00, 0x78, 0x00, 0x00, 0x00,
     0x00, 0x00, 0x00, 0x00, 0x78, 0x00, 0x00, 0x00, 0x00, 0x00, 0x00, 0x00, 0x48, 0x00, 0x00, 0x00,
     0x00, 0x00, 0x00, 0x00, 0x00, 0x00, 0x00, 0x00, 0x00, 0x00, 0x00, 0x00, 0x01, 0x00, 0x00, 0x00,
     0x00, 0x00, 0x00, 0x00, 0x00, 0x00, 0x00, 0x00, 0x00, 0x00, 0x00, 0x00, 0x09, 0x00, 0x00, 0x00,
     0x03, 0x00, 0x00, 0x00, 0x00, 0x00, 0x00, 0x00, 0x00, 0x00, 0x00, 0x00, 0xc0, 0x00, 0x00, 0x00,
     0x00, 0x00, 0x00, 0x00, 0xc0, 0x00, 0x00, 0x00, 0x00, 0x00, 0x00, 0x00, 0x10, 0x00, 0x00, 0x00,
     0x00, 0x00, 0x00, 0x00, 0x00, 0x00, 0x00, 0x00, 0x00, 0x00, 0x00, 0x00, 0x01, 0x00, 0x00, 0x00,
     0x00, 0x00, 0x00, 0x00, 0x00, 0x00, 0x00, 0x00, 0x00, 0x00, 0x00, 0x00, 0x11, 0x00, 0x00, 0x00,
     0x03, 0x00, 0x00, 0x00, 0x00, 0x00, 0x00, 0x00, 0x00, 0x00, 0x00, 0x00, 0x00, 0x00, 0x00, 0x00,
     0x00, 0x00, 0x00, 0x00, 0xd0, 0x00, 0x00, 0x00, 0x00, 0x00, 0x00, 0x00, 0x1b, 0x00, 0x00, 0x00,
     0x00, 0x00, 0x00, 0x00, 0x00, 0x00, 0x00, 0x00, 0x00, 0x00, 0x00, 0x00, 0x01, 0x00, 0x00, 0x00,
     0x00, 0x00, 0x00, 0x00, 0x00, 0x00, 0x00, 0x00, 0x00, 0x00, 0x00, 0x00]"

definition puts_info :: ElfInfo where
  "puts_info = ElfInfo_default
     \<lparr> elfClass := kElf64, machine := 183, loadBias := 0, loadedSize := 0x2000,
       dynsym := Some 120, dynsym_size := 3, dynstr := Some 192 \<rparr>"

definition puts_view :: ElfView where
  "puts_view = \<lparr> mMemory = Some puts_image, mIsLoaded = False, mElfInfo = Some puts_info \<rparr>"

text \<open>
  A relocation table of \<open>count\<close> records of \<open>recsz\<close> bytes lies inside the attached range:
  it is empty, or its base is not null and all its records are inside.
\<close>

definition table_in_range :: "bytes \<Rightarrow> ptr \<Rightarrow> nat \<Rightarrow> nat \<Rightarrow> bool" where
  "table_in_range mem tab count recsz =
     (count = 0 \<or> (case tab of None \<Rightarrow> False | Some base \<Rightarrow> base + count * recsz \<le> length mem))"

text \<open>Record \<open>i\<close> of a table that lies inside the range: its \<open>r_info\<close> and \<open>r_offset\<close>.\<close>

definition reloc_info :: "ElfClass \<Rightarrow> bytes \<Rightarrow> nat \<Rightarrow> ptr \<Rightarrow> nat \<Rightarrow> u64" where
  "reloc_info k mem recsz tab i = projr (r_info k mem (the tab + i * recsz))"

definition reloc_offset :: "ElfClass \<Rightarrow> bytes \<Rightarrow> nat \<Rightarrow> ptr \<Rightarrow> nat \<Rightarrow> u64" where
  "reloc_offset k mem recsz tab i = projr (r_offset k mem (the tab + i * recsz))"

definition jump_slot_of :: "ElfClass \<Rightarrow> bytes \<Rightarrow> nat \<Rightarrow> ptr \<Rightarrow> u32 \<Rightarrow> nat \<Rightarrow> bool" where
  "jump_slot_of k mem recsz tab symidx i =
     (R_SYM k (reloc_info k mem recsz tab i) = ucast symidx \<and>
      is_jump_slot k (R_TYPE k (reloc_info k mem recsz tab i)))"

definition data_reloc_of :: "ElfClass \<Rightarrow> bytes \<Rightarrow> nat \<Rightarrow> ptr \<Rightarrow> u32 \<Rightarrow> nat \<Rightarrow> bool" where
  "data_reloc_of k mem recsz tab symidx i =
     (R_SYM k (reloc_info k mem recsz tab i) = ucast symidx \<and>
      is_data_reloc k (R_TYPE k (reloc_info k mem recsz tab i)))"

text \<open>
  The specified result of the GOT scan for dynsym index \<open>symidx\<close>: the first jump slot of
  the PLT table, if there is one, then every data relocation of the other table in table
  order, each as \<open>r_offset - loadBias\<close>.
\<close>

definition expected_got ::
  "ElfClass \<Rightarrow> bytes \<Rightarrow> u64 \<Rightarrow> nat \<Rightarrow> ptr \<Rightarrow> nat \<Rightarrow> ptr \<Rightarrow> nat \<Rightarrow> u32 \<Rightarrow> u64 list" where
  "expected_got k mem bias recsz plt plt_count dyn dyn_count symidx =
     (case find (jump_slot_of k mem recsz plt symidx) [0..<plt_count] of
        None \<Rightarrow> []
      | Some i \<Rightarrow> [reloc_offset k mem recsz plt i - bias])
     @ map (\<lambda>i. reloc_offset k mem recsz dyn i - bias)
         (filter (data_reloc_of k mem recsz dyn symidx) [0..<dyn_count])"

section \<open>Basic facts about faults, loops and strings\<close>

lemma bindE_Inr_iff: "bindE m f = Inr y \<longleftrightarrow> (\<exists>x. m = Inr x \<and> f x = Inr y)"
  by (cases m) (simp_all add: bindE_def)

lemma mapE_Inr_iff: "mapE f m = Inr y \<longleftrightarrow> (\<exists>x. m = Inr x \<and> y = f x)"
  by (cases m) (auto simp: mapE_def)

lemma bindE_Inr [simp]: "bindE (Inr x) f = f x"
  by (simp add: bindE_def)

lemma bindE_Inl [simp]: "bindE (Inl e) f = Inl e"
  by (simp add: bindE_def)

lemma mapE_Inr [simp]: "mapE f (Inr x) = Inr (f x)"
  by (simp add: mapE_def)

lemma mapE_Inl [simp]: "mapE f (Inl e) = Inl e"
  by (simp add: mapE_def)

lemma firstE_Some: "firstE f xs = Inr (Some y) \<Longrightarrow> \<exists>i \<in> set xs. f i = Inr (Some y)"
  by (induction xs) (auto split: sum.splits option.splits)

lemma firstE_None: "firstE f xs = Inr None \<Longrightarrow> i \<in> set xs \<Longrightarrow> f i = Inr None"
  by (induction xs) (auto split: sum.splits option.splits)



section \<open>Hash functions: the loops compute the specified folds\<close>





section \<open>Attach with an unknown class byte\<close>

text \<open>
  C3 at the failing input: a 64-byte range with the magic and class byte 3. Attach stores
  the byte as the class, so \<open>elfClass\<close> is 3, not \<open>kNone\<close>, and \<open>IsValid\<close> holds.
\<close>

theorem unknown_class_is_valid:
  "AttachFileMemMapping decode v (Some class3_image) =
     Inr (v\<lparr>mMemory := Some class3_image, mIsLoaded := False,
            mElfInfo := Some (ElfInfo_default\<lparr>elfClass := 3\<rparr>)\<rparr>) \<and>
   IsValid (v\<lparr>mMemory := Some class3_image, mIsLoaded := False,
            mElfInfo := Some (ElfInfo_default\<lparr>elfClass := 3\<rparr>)\<rparr>)"
  by (simp add: AttachFileMemMapping_def attach_info_def class3_image_def ELFMAG_def
      IsValid_def span_empty_def span_bytes_def bindE_def ElfInfo_default_def)

text \<open>
  C7 at the same input: the view is valid and its pointer size is 0, neither 4 nor 8.
\<close>

theorem valid_view_with_pointer_size_0:
  "IsValid (v\<lparr>mMemory := Some class3_image, mIsLoaded := False,
            mElfInfo := Some (ElfInfo_default\<lparr>elfClass := 3\<rparr>)\<rparr>) \<and>
   GetPointerSize (v\<lparr>mMemory := Some class3_image, mIsLoaded := False,
            mElfInfo := Some (ElfInfo_default\<lparr>elfClass := 3\<rparr>)\<rparr>) = 0"
  by (simp add: class3_image_def ELFMAG_def GetPointerSize_def
      IsValid_def span_empty_def span_bytes_def ElfInfo_default_def)

section \<open>Queries after Detach\<close>

text \<open>
  The queries that go through \<open>IsValid\<close> first, and \<open>GetSymbolOffset\<close> of the empty name,
  return their miss sentinels after \<open>Detach\<close>.
\<close>

lemma detach_guarded_queries:
  "\<not> IsValid (Detach v) \<and> GetPointerSize (Detach v) = 0 \<and> GetArchitecture (Detach v) = 0 \<and>
   GetFirstSymbolOffsetWithPrefix (Detach v) p = Inr 0 \<and>
   GetSymbolGotOffset (Detach v) s = Inr [] \<and> GetSymbolOffset (Detach v) [] = Inr 0"
  by (simp add: IsValid_def GetPointerSize_def GetArchitecture_def
      GetFirstSymbolOffsetWithPrefix_def GetSymbolGotOffset_def GetSymbolOffset_def Detach_def
      span_empty_def span_bytes_def)

text \<open>
  C6 at the failing input: after \<open>Detach\<close> the descriptor pointer is null, and
  \<open>GetLoadBias\<close>, \<open>GetLoadedSize\<close>, \<open>GetSoname\<close> and \<open>GetSymbolOffset\<close> of a non-empty name
  read through it.
\<close>

theorem detach_then_query_null:
  "GetLoadBias (Detach v) = Inl NullDeref \<and>
   GetLoadedSize (Detach v) = Inl NullDeref \<and>
   GetSoname (Detach v) = Inl NullDeref \<and>
   GetSymbolOffset (Detach v) (c # cs) = Inl NullDeref"
  by (simp add: GetLoadBias_def GetLoadedSize_def GetSoname_def GetSymbolOffset_def Detach_def)

section \<open>Relocation counts\<close>

text \<open>
  C5 at the failing input: the image declares \<open>DT_PLTREL = DT_RELA\<close> and 48 bytes of PLT
  relocations, that is two \<open>Elf64_Rela\<close> records. Attach stores \<open>use_rela = true\<close> and
  \<open>relplt_size = 3\<close>, the byte size divided by \<open>sizeof(Elf64_Rel)\<close>.
\<close>

theorem pltrelsz_divided_by_rel_size:
  "map_sum id (\<lambda>v. map_option (\<lambda>i. (use_rela i, relplt i, relplt_size i)) (mElfInfo v))
     (AttachFileMemMapping (\<lambda>d. None) ElfView_new (Some rela_plt_image)) =
     Inr (Some (True, Some 184, 3)) \<and>
   48 div sizeof_Rela kElf64 = 2 \<and> 48 div sizeof_Rel kElf64 = 3"
  by code_simp

section \<open>Soundness of the lookups: a hit is a record that carries the name\<close>

lemma gnu_chain_loop_sound:
  assumes "gnu_chain_loop k mem dynsymp dynstrp chain symoffset h symbol symix = Some y"
  shows "\<forall>i sp. y = Inr (Some (i, sp)) \<longrightarrow>
           sp = dynsymp + unat i * sizeof_Sym k \<and> sym_named mem dynstrp sp symbol"
proof (rule gnu_chain_loop.raw_induct
    [where P = "\<lambda>k mem dynsymp dynstrp chain symoffset h symbol symix y.
       \<forall>i sp. y = Inr (Some (i, sp)) \<longrightarrow>
         sp = dynsymp + unat i * sizeof_Sym k \<and> sym_named mem dynstrp sp symbol",
     OF _ assms], goal_cases)
  case (1 loop k mem dynsymp dynstrp chain symoffset h symbol symix y)
  from "1"(2) show ?case
    by (auto split: sum.splits if_splits
        simp: view_eq_cstr_def mapE_Inr_iff sym_named_def dest: "1"(1))
qed

lemma sysv_chain_loop_sound:
  assumes "sysv_chain_loop k mem dynsymp dynstrp chain symbol index = Some y"
  shows "\<forall>i sp. y = Inr (Some (i, sp)) \<longrightarrow>
           sp = dynsymp + unat i * sizeof_Sym k \<and> sym_named mem dynstrp sp symbol"
proof (rule sysv_chain_loop.raw_induct
    [where P = "\<lambda>k mem dynsymp dynstrp chain symbol index y.
       \<forall>i sp. y = Inr (Some (i, sp)) \<longrightarrow>
         sp = dynsymp + unat i * sizeof_Sym k \<and> sym_named mem dynstrp sp symbol",
     OF _ assms], goal_cases)
  case (1 loop k mem dynsymp dynstrp chain symbol index y)
  from "1"(2) show ?case
    by (auto split: sum.splits if_splits
        simp: view_eq_cstr_def mapE_Inr_iff sym_named_def dest: "1"(1))
qed

lemma gnu_hash_lookup_sound:
  assumes "gnu_hash_lookup k mem info dynsymp dynstrp symbol = Inr (Hit (i, sp))"
  shows "sp = dynsymp + unat i * sizeof_Sym k \<and> sym_named mem dynstrp sp symbol"
proof -
  from assms obtain chain symoffset h symix y where
    loop: "gnu_chain_loop k mem dynsymp dynstrp chain symoffset h symbol symix = Some y"
    and y: "y = Inr (Some (i, sp))"
    by (auto simp: gnu_hash_lookup_def Let_def bindE_Inr_iff mapE_Inr_iff
        split: option.splits if_splits)
  from gnu_chain_loop_sound [OF loop] y show ?thesis by blast
qed

lemma sysv_hash_lookup_sound:
  assumes "sysv_hash_lookup k mem info dynsymp dynstrp symbol = Inr (Some (i, sp))"
  shows "sp = dynsymp + unat i * sizeof_Sym k \<and> sym_named mem dynstrp sp symbol"
proof -
  from assms consider
    (bucket) nm where "st_name mem (dynsymp + unat i * sizeof_Sym k) = Inr nm"
      "view_eq_cstr mem (dynstrp + unat nm) symbol = Inr True"
      "sp = dynsymp + unat i * sizeof_Sym k"
  | (chain) chain index y where
      "sysv_chain_loop k mem dynsymp dynstrp chain symbol index = Some y"
      "y = Inr (Some (i, sp))"
    by (auto simp: sysv_hash_lookup_def bindE_Inr_iff split: option.splits if_splits)
  then show ?thesis
  proof cases
    case bucket
    then show ?thesis by (auto simp: sym_named_def view_eq_cstr_def mapE_Inr_iff)
  next
    case chain
    from sysv_chain_loop_sound [OF chain(1)] chain(2) show ?thesis by blast
  qed
qed

lemma sym_named_matched: "sym_named mem strs sp name \<Longrightarrow> sym_matched mem strs sp name"
  by (auto simp: sym_named_def sym_matched_def split: sum.splits)


lemma dynsym_scan_sound:
  assumes "dynsym_scan k mem dynsymp dynstrp n symbol = Inr (Some (i, sp))"
  shows "\<exists>j<n. i = of_nat j \<and> sp = dynsymp + j * sizeof_Sym k \<and>
           sym_matched mem dynstrp sp symbol"
proof -
  from firstE_Some [OF assms(1) [unfolded dynsym_scan_def]]
  obtain j nm where j: "j < n"
    and nm: "st_name mem (dynsymp + j * sizeof_Sym k) = Inr nm"
    and m: "name_matches mem (dynstrp + unat nm) symbol = Inr True"
    and r: "i = of_nat j" "sp = dynsymp + j * sizeof_Sym k"
    by (auto simp: bindE_Inr_iff split: if_splits)
  from m nm r j show ?thesis
    by (auto simp: sym_matched_def)
qed

lemma GetDynamicSymbolIndexImpl_sound:
  assumes "GetDynamicSymbolIndexImpl k mem info symbol u = Inr (Some (i, sp))"
  shows "\<exists>dynsymp dynstrp j. dynsym info = Some dynsymp \<and> dynstr info = Some dynstrp \<and>
           (j < dynsym_size info \<or> j = unat i) \<and>
           i = of_nat j \<and> sp = dynsymp + j * sizeof_Sym k \<and>
           sym_matched mem dynstrp sp symbol"
proof -
  from assms(1) obtain dynsymp dynstrp where
    p: "dynsym info = Some dynsymp" "dynstr info = Some dynstrp"
    by (auto simp: GetDynamicSymbolIndexImpl_def split: if_splits option.splits)
  define hashed where "hashed =
    (if \<not> u
     then bindE (gnu_hash_lookup k mem info dynsymp dynstrp symbol) (\<lambda>g.
            case g of
              FallThrough \<Rightarrow>
                mapE (\<lambda>h. case h of None \<Rightarrow> FallThrough | Some x \<Rightarrow> Hit x)
                  (sysv_hash_lookup k mem info dynsymp dynstrp symbol)
            | _ \<Rightarrow> Inr g)
     else Inr FallThrough)"
  from assms(1) p obtain r where r: "hashed = Inr r"
    and c: "(case r of Hit x \<Rightarrow> Inr (Some x) | ReturnFalse \<Rightarrow> Inr None
             | FallThrough \<Rightarrow> dynsym_scan k mem dynsymp dynstrp (dynsym_size info) symbol)
            = Inr (Some (i, sp))"
    by (auto simp: GetDynamicSymbolIndexImpl_def hashed_def bindE_Inr_iff split: if_splits)
  have good: "sp = dynsymp + unat i * sizeof_Sym k \<and> sym_named mem dynstrp sp symbol
              \<Longrightarrow> ?thesis"
    using p by (rule_tac x = dynsymp in exI, rule_tac x = dynstrp in exI,
        rule_tac x = "unat i" in exI) (auto intro: sym_named_matched)
  show ?thesis
  proof (cases r)
    case (Hit x)
    with c have x: "x = (i, sp)" by simp
    from r Hit x obtain g where g: "gnu_hash_lookup k mem info dynsymp dynstrp symbol = Inr g"
      and g': "(case g of
              FallThrough \<Rightarrow>
                mapE (\<lambda>h. case h of None \<Rightarrow> FallThrough | Some x \<Rightarrow> Hit x)
                  (sysv_hash_lookup k mem info dynsymp dynstrp symbol)
            | _ \<Rightarrow> Inr g) = Inr (Hit (i, sp))"
      by (auto simp: hashed_def bindE_Inr_iff split: if_splits)
    show ?thesis
    proof (cases g)
      case (Hit y)
      with g g' have "gnu_hash_lookup k mem info dynsymp dynstrp symbol = Inr (Hit (i, sp))"
        by simp
      from gnu_hash_lookup_sound [OF this] show ?thesis by (rule good)
    next
      case ReturnFalse
      with g' show ?thesis by simp
    next
      case FallThrough
      with g' have "sysv_hash_lookup k mem info dynsymp dynstrp symbol = Inr (Some (i, sp))"
        by (auto simp: mapE_Inr_iff split: option.splits)
      from sysv_hash_lookup_sound [OF this] show ?thesis by (rule good)
    qed
  next
    case ReturnFalse
    with c show ?thesis by simp
  next
    case FallThrough
    with c have "dynsym_scan k mem dynsymp dynstrp (dynsym_size info) symbol
                 = Inr (Some (i, sp))" by simp
    from dynsym_scan_sound [OF this] p show ?thesis by blast
  qed
qed

lemma GetNonDynamicSymbolImpl_sound:
  assumes "GetNonDynamicSymbolImpl k mem info symbol = Inr (Some sp)"
  shows "\<exists>symtabp strtabp j. symtab info = Some symtabp \<and> strtab info = Some strtabp \<and>
           j < symtab_size info \<and> sp = symtabp + j * sizeof_Sym k \<and>
           sym_named mem strtabp sp symbol"
proof -
  from assms obtain symtabp strtabp where
    p: "symtab info = Some symtabp" "strtab info = Some strtabp"
    by (auto simp: GetNonDynamicSymbolImpl_def split: if_splits option.splits)
  from assms p have "firstE (\<lambda>i.
               bindE (st_name mem (symtabp + i * sizeof_Sym k)) (\<lambda>nm.
               bindE (view_eq_cstr mem (strtabp + unat nm) symbol) (\<lambda>m.
                 Inr (if m then Some (symtabp + i * sizeof_Sym k) else None))))
              [0..<symtab_size info] = Inr (Some sp)"
    by (auto simp: GetNonDynamicSymbolImpl_def split: if_splits)
  from firstE_Some [OF this] p show ?thesis
    by (auto simp: bindE_Inr_iff view_eq_cstr_def mapE_Inr_iff sym_named_def split: if_splits)
qed


section \<open>The test images attach to the views given\<close>


lemma attach_s1_image:
  "AttachFileMemMapping (\<lambda>d. None) ElfView_new (Some s1_image) = Inr s1_view"
  by code_simp

lemma attach_s2_image:
  "AttachFileMemMapping (\<lambda>d. None) ElfView_new (Some s2_image) = Inr s2_view"
  by code_simp

lemma attach_pltrelsz_only_image:
  "AttachFileMemMapping (\<lambda>d. None) ElfView_new (Some pltrelsz_only_image) = Inr pltrelsz_only_view"
  by code_simp

lemma attach_puts_image:
  "AttachFileMemMapping (\<lambda>d. None) ElfView_new (Some puts_image) = Inr puts_view"
  by code_simp


section \<open>The relocation scan over tables inside the attached range\<close>


lemma read_bytes_Inr_iff: "(\<exists>bs. read_bytes mem off n = Inr bs) \<longleftrightarrow> off + n \<le> length mem"
  by (simp add: read_bytes_def)

lemma read_u32_Inr_iff: "(\<exists>w. read_u32 mem off = Inr w) \<longleftrightarrow> off + 4 \<le> length mem"
  by (auto simp: read_u32_def read_bytes_def mapE_Inr_iff)

lemma read_u64_Inr_iff: "(\<exists>w. read_u64 mem off = Inr w) \<longleftrightarrow> off + 8 \<le> length mem"
  by (auto simp: read_u64_def read_bytes_def mapE_Inr_iff)

lemma rd_word_Inr_iff:
  "(\<exists>w. rd_word k mem o32 o64 = Inr w) \<longleftrightarrow>
     (if k = kElf32 then o32 + 4 \<le> length mem else o64 + 8 \<le> length mem)"
  using read_u32_Inr_iff [of mem o32] read_u64_Inr_iff [of mem o64]
  by (auto simp: rd_word_def mapE_Inr_iff)

lemma r_info_Inr_iff:
  "(\<exists>w. r_info k mem rel = Inr w) \<longleftrightarrow> rel + sizeof_Rel k \<le> length mem"
  using rd_word_Inr_iff [of k mem "rel + 4" "rel + 8"]
  by (auto simp: r_info_def sizeof_Rel_def)

lemma r_offset_ok:
  "rel + sizeof_Rel k \<le> length mem \<Longrightarrow> \<exists>w. r_offset k mem rel = Inr w"
  using rd_word_Inr_iff [of k mem rel rel]
  by (auto simp: r_offset_def sizeof_Rel_def split: if_splits)

lemma record_in_range:
  assumes "base + count * recsz \<le> length mem" and "i < count" and "sizeof_Rel k \<le> recsz"
  shows "base + i * recsz + sizeof_Rel k \<le> length mem"
proof -
  from assms(2) have "Suc i \<le> count" by simp
  then have "Suc i * recsz \<le> count * recsz" by (rule mult_le_mono1)
  with assms(1,3) show ?thesis by simp
qed

lemma reloc_reads:
  assumes "base + count * recsz \<le> length mem" and "i < count" and "sizeof_Rel k \<le> recsz"
  shows "r_info k mem (base + i * recsz) = Inr (reloc_info k mem recsz (Some base) i) \<and>
         r_offset k mem (base + i * recsz) = Inr (reloc_offset k mem recsz (Some base) i)"
proof -
  from record_in_range [OF assms] have r: "base + i * recsz + sizeof_Rel k \<le> length mem" .
  from r obtain w where w: "r_info k mem (base + i * recsz) = Inr w"
    using r_info_Inr_iff [of k mem "base + i * recsz"] by blast
  from r_offset_ok [OF r] obtain x where x: "r_offset k mem (base + i * recsz) = Inr x" by blast
  from w x show ?thesis by (simp add: reloc_info_def reloc_offset_def)
qed

lemma firstE_pure:
  "(\<And>i. i \<in> set xs \<Longrightarrow> f i = Inr (g i)) \<Longrightarrow>
   firstE f xs = Inr (case find (\<lambda>i. g i \<noteq> None) xs of None \<Rightarrow> None | Some i \<Rightarrow> g i)"
  by (induction xs) (auto split: option.splits)

lemma foldE_pure:
  "(\<And>i acc. i \<in> set xs \<Longrightarrow> f i acc = Inr (h i acc)) \<Longrightarrow> foldE f xs s = Inr (fold h xs s)"
  by (induction xs arbitrary: s) auto

lemma fold_append_filter:
  "fold (\<lambda>i acc. if m i then acc @ [g i] else acc) xs s = s @ map g (filter m xs)"
  by (induction xs arbitrary: s) auto

lemma scan_relplt_in_range:
  assumes "table_in_range mem tab count recsz" and "sizeof_Rel k \<le> recsz"
  shows "scan_relplt k mem bias recsz tab count symidx =
           Inr (case find (jump_slot_of k mem recsz tab symidx) [0..<count] of
                  None \<Rightarrow> None
                | Some i \<Rightarrow> Some (reloc_offset k mem recsz tab i - bias))"
proof (cases "count = 0")
  case True
  then show ?thesis by (simp add: scan_relplt_def)
next
  case False
  with assms(1) obtain base where b: "tab = Some base" "base + count * recsz \<le> length mem"
    by (auto simp: table_in_range_def split: option.splits)
  define g where "g i = (if jump_slot_of k mem recsz tab symidx i
                         then Some (reloc_offset k mem recsz tab i - bias) else None)" for i
  have "scan_relplt k mem bias recsz tab count symidx =
          Inr (case find (\<lambda>i. g i \<noteq> None) [0..<count] of None \<Rightarrow> None | Some i \<Rightarrow> g i)"
    unfolding scan_relplt_def
  proof (rule firstE_pure)
    fix i assume "i \<in> set [0..<count]"
    then have i: "i < count" by simp
    from reloc_reads [OF b(2) i assms(2)] b(1)
    show "bindE (deref tab) (\<lambda>base.
            bindE (r_info k mem (base + i * recsz)) (\<lambda>inf.
              if R_SYM k inf = ucast symidx \<and> is_jump_slot k (R_TYPE k inf)
              then mapE (\<lambda>off. Some (off - bias)) (r_offset k mem (base + i * recsz))
              else Inr None)) = Inr (g i)"
      by (simp add: deref_def g_def jump_slot_of_def)
  qed
  moreover have "(\<lambda>i. g i \<noteq> None) = jump_slot_of k mem recsz tab symidx"
    by (auto simp: g_def)
  ultimately show ?thesis
    by (auto simp: g_def split: option.splits dest: find_Some_iff [THEN iffD1])
qed

lemma scan_reldyn_in_range:
  assumes "table_in_range mem tab count recsz" and "sizeof_Rel k \<le> recsz"
  shows "scan_reldyn k mem bias recsz tab count symidx result =
           Inr (result @ map (\<lambda>i. reloc_offset k mem recsz tab i - bias)
                           (filter (data_reloc_of k mem recsz tab symidx) [0..<count]))"
proof (cases "count = 0")
  case True
  then show ?thesis by (simp add: scan_reldyn_def)
next
  case False
  with assms(1) obtain base where b: "tab = Some base" "base + count * recsz \<le> length mem"
    by (auto simp: table_in_range_def split: option.splits)
  have "scan_reldyn k mem bias recsz tab count symidx result =
          Inr (fold (\<lambda>i acc. if data_reloc_of k mem recsz tab symidx i
                              then acc @ [reloc_offset k mem recsz tab i - bias] else acc)
                 [0..<count] result)"
    unfolding scan_reldyn_def
  proof (rule foldE_pure)
    fix i acc assume "i \<in> set [0..<count]"
    then have i: "i < count" by simp
    from reloc_reads [OF b(2) i assms(2)] b(1)
    show "bindE (deref tab) (\<lambda>base.
            bindE (r_info k mem (base + i * recsz)) (\<lambda>inf.
              if R_SYM k inf = ucast symidx \<and> is_data_reloc k (R_TYPE k inf)
              then mapE (\<lambda>off. acc @ [off - bias]) (r_offset k mem (base + i * recsz))
              else Inr acc)) =
          Inr (if data_reloc_of k mem recsz tab symidx i
               then acc @ [reloc_offset k mem recsz tab i - bias] else acc)"
      by (simp add: deref_def data_reloc_of_def)
  qed
  then show ?thesis by (simp add: fold_append_filter)
qed

lemma scan_got_in_range:
  assumes "table_in_range mem plt pc recsz" and "table_in_range mem dyn dc recsz"
    and "sizeof_Rel k \<le> recsz"
  shows "scan_got k mem bias recsz plt pc dyn dc symidx =
           Inr (expected_got k mem bias recsz plt pc dyn dc symidx)"
  by (simp add: scan_got_def expected_got_def scan_relplt_in_range [OF assms(1,3)]
      scan_reldyn_in_range [OF assms(2,3)] split: option.splits)


section \<open>GetSymbolGotOffset\<close>


lemma find_first_index:
  assumes "i < n" and "P i" and "\<And>j. j < i \<Longrightarrow> \<not> P j"
  shows "find P [0..<n] = Some i"
  using assms by (auto simp: find_Some_iff intro!: exI [of _ i])

lemma GetSymbolGotOffset_unfold:
  assumes "IsValid v" and "mElfInfo v = Some info" and "mem = span_bytes (mMemory v)"
    and "k = elfClass info" and "k = kElf32 \<or> k = kElf64" and "name \<noteq> []"
  shows "GetSymbolGotOffset v name =
           bindE (GetDynamicSymbolIndexImpl k mem info name True) (\<lambda>r.
             case r of
               None \<Rightarrow> Inr []
             | Some (symidx, unused) \<Rightarrow>
                 scan_got k mem (loadBias info)
                   (if use_rela info then sizeof_Rela k else sizeof_Rel k)
                   (relplt info) (relplt_size info)
                   (if use_rela info then reladyn info else reldyn info)
                   (if use_rela info then reladyn_size info else reldyn_size info) symidx)"
proof -
  from assms show ?thesis
    by (cases "use_rela info")
       (auto simp: GetSymbolGotOffset_def Let_def
          intro!: arg_cong2 [where f = bindE] split: option.splits)
qed

text \<open>
  C2 (amended): for every valid attached view of class Elf32 or Elf64 whose relocation
  tables lie inside the attached range, and every non-empty name with a dynsym index,
  \<open>GetSymbolGotOffset\<close> returns the \<open>r_offset - loadBias\<close> of the first jump-slot relocation
  of that index in \<open>relplt\<close> (if there is one), followed by those of all data relocations
  of the index in table order. The first jump-slot relocation of the index is the head of
  the result; later jump slots of the same symbol are not reported. For the empty name
  and for a name without dynsym index the result is empty.
\<close>

theorem GetSymbolGotOffset_first_jump_slot_then_data:
  assumes "IsValid v" and "mElfInfo v = Some info" and "mem = span_bytes (mMemory v)"
    and "k = elfClass info" and "k = kElf32 \<or> k = kElf64"
    and "recsz = (if use_rela info then sizeof_Rela k else sizeof_Rel k)"
    and "dyn = (if use_rela info then reladyn info else reldyn info)"
    and "dc = (if use_rela info then reladyn_size info else reldyn_size info)"
    and "table_in_range mem (relplt info) (relplt_size info) recsz"
    and "table_in_range mem dyn dc recsz"
    and "name \<noteq> []"
  shows
    "GetSymbolGotOffset v [] = Inr [] \<and>
     (GetDynamicSymbolIndexImpl k mem info name True = Inr None \<longrightarrow>
        GetSymbolGotOffset v name = Inr []) \<and>
     (\<forall>symidx sp. GetDynamicSymbolIndexImpl k mem info name True = Inr (Some (symidx, sp)) \<longrightarrow>
        GetSymbolGotOffset v name =
          Inr (expected_got k mem (loadBias info) recsz (relplt info) (relplt_size info)
                 dyn dc symidx) \<and>
        (\<forall>i < relplt_size info.
           jump_slot_of k mem recsz (relplt info) symidx i \<and>
           (\<forall>j < i. \<not> jump_slot_of k mem recsz (relplt info) symidx j) \<longrightarrow>
           hd (expected_got k mem (loadBias info) recsz (relplt info) (relplt_size info)
                 dyn dc symidx) =
             reloc_offset k mem recsz (relplt info) i - loadBias info))"
proof -
  have sz: "sizeof_Rel k \<le> recsz"
    using assms(5,6) by (auto simp: sizeof_Rel_def sizeof_Rela_def)
  note u = GetSymbolGotOffset_unfold [OF assms(1-5,11)]
  have a: "GetSymbolGotOffset v [] = Inr []"
    by (simp add: GetSymbolGotOffset_def)
  have b: "GetDynamicSymbolIndexImpl k mem info name True = Inr None \<Longrightarrow>
           GetSymbolGotOffset v name = Inr []"
    by (simp add: u)
  have c: "GetDynamicSymbolIndexImpl k mem info name True = Inr (Some (symidx, sp)) \<Longrightarrow>
           GetSymbolGotOffset v name =
             Inr (expected_got k mem (loadBias info) recsz (relplt info) (relplt_size info)
                    dyn dc symidx)" for symidx sp
    using scan_got_in_range [OF assms(9,10) sz] assms(6,7,8) by (simp add: u)
  have d: "i < relplt_size info \<Longrightarrow> jump_slot_of k mem recsz (relplt info) symidx i \<Longrightarrow>
           (\<And>j. j < i \<Longrightarrow> \<not> jump_slot_of k mem recsz (relplt info) symidx j) \<Longrightarrow>
           hd (expected_got k mem (loadBias info) recsz (relplt info) (relplt_size info)
                 dyn dc symidx) =
             reloc_offset k mem recsz (relplt info) i - loadBias info" for i symidx
    by (simp add: expected_got_def find_first_index)
  from a b c d show ?thesis by blast
qed


section \<open>Views with a default descriptor\<close>

lemma default_descriptor_misses:
  assumes "mElfInfo v = Some ElfInfo_default"
  shows "queries_miss v name"
proof -
  have a: "GetSymbolOffset v name = Inr 0"
    using assms
    by (simp add: GetSymbolOffset_def dynamic_offset_def symtab_offset_def ElfInfo_default_def)
  have b: "GetSymbolGotOffset v name = Inr []"
    using assms by (simp add: GetSymbolGotOffset_def IsValid_def ElfInfo_default_def)
  have c: "GetLoadBias v = Inr 0" "GetLoadedSize v = Inr 0" "GetSoname v = Inr []"
    using assms
    by (simp_all add: GetLoadBias_def GetLoadedSize_def GetSoname_def ElfInfo_default_def)
  from a b c assms show ?thesis by (simp add: queries_miss_def)
qed

text \<open>
  C9: a freshly constructed view, and the view that either attach operation leaves for a
  range that fails the structural checks (null data, fewer than 64 bytes, wrong magic),
  has the default descriptor; \<open>GetLoadBias\<close> and \<open>GetLoadedSize\<close> return 0, \<open>GetSoname\<close> the
  empty string, \<open>GetSymbolOffset\<close> 0 and \<open>GetSymbolGotOffset\<close> the empty sequence, for every
  name. Both attach operations return on such a range.
\<close>

theorem failed_attach_keeps_defaults:
  assumes "structurally_invalid m"
  shows "queries_miss ElfView_new name \<and>
         (\<exists>v. AttachFileMemMapping decode v0 m = Inr v \<and> queries_miss v name) \<and>
         (\<exists>v. AttachLoadedMemoryView v0 m = Inr v \<and> queries_miss v name)"
proof -
  have a: "queries_miss ElfView_new name"
    by (rule default_descriptor_misses) (simp add: ElfView_new_def)
  have b: "AttachFileMemMapping decode v0 m =
             Inr (v0\<lparr>mMemory := m, mIsLoaded := False, mElfInfo := Some ElfInfo_default\<rparr>)"
    using assms
    by (auto simp: AttachFileMemMapping_def structurally_invalid_def split: option.splits)
  have c: "AttachLoadedMemoryView v0 m =
             Inr (v0\<lparr>mMemory := m, mIsLoaded := True, mElfInfo := Some ElfInfo_default\<rparr>)"
    using assms
    by (auto simp: AttachLoadedMemoryView_def structurally_invalid_def split: option.splits)
  from a b c show ?thesis by (simp add: default_descriptor_misses)
qed

text \<open>Witness for C9: scenario S5, a truncated input of 20 bytes, and the name \<open>foo\<close>.\<close>

theorem failed_attach_keeps_defaults_witness:
  "structurally_invalid (Some (replicate 20 0)) \<and>
   queries_miss ElfView_new (str ''foo'') \<and>
   (\<exists>v. AttachFileMemMapping (\<lambda>d. None) ElfView_new (Some (replicate 20 0)) = Inr v \<and>
        queries_miss v (str ''foo'')) \<and>
   (\<exists>v. AttachLoadedMemoryView ElfView_new (Some (replicate 20 0)) = Inr v \<and>
        queries_miss v (str ''foo''))"
proof -
  have h: "structurally_invalid (Some (replicate 20 0))"
    by (simp add: structurally_invalid_def)
  from h failed_attach_keeps_defaults [OF h, of "str ''foo''" "\<lambda>d. None" ElfView_new]
  show ?thesis by simp
qed

section \<open>GetSymbolOffset\<close>



section \<open>GetSymbolGotOffset on the scenario images\<close>


text \<open>
  C2, as stated, puts the offset of every jump-slot relocation of an imported symbol into
  the result. In the image of scenario S2 the second PLT record is an
  \<open>R_ARM_JUMP_SLOT\<close> of \<open>malloc\<close> (dynsym index 1) with \<open>r_offset = 0x300c\<close>; the result for
  \<open>malloc\<close> does not contain \<open>0x300c - loadBias\<close>.
\<close>

theorem second_jump_slot_counterexample:
  "GetDynamicSymbolIndexImpl kElf32 s2_image s2_info (str ''malloc'') True = Inr (Some (1, 220)) \<and>
   r_info kElf32 s2_image (164 + 1 * sizeof_Rel kElf32) = Inr 0x116 \<and>
   R_SYM kElf32 0x116 = 1 \<and> is_jump_slot kElf32 (R_TYPE kElf32 0x116) \<and>
   r_offset kElf32 s2_image (164 + 1 * sizeof_Rel kElf32) = Inr 0x300c \<and>
   loadBias s2_info = 0x1000 \<and>
   GetSymbolGotOffset s2_view (str ''malloc'') = Inr [0x2008, 0x3010, 0x3018] \<and>
   (0x300c - 0x1000 :: u64) \<notin> set [0x2008, 0x3010, 0x3018]"
  by code_simp

text \<open>
  Witness for C2 (amended), on scenario S2 and the import \<open>free\<close>: no jump slot, one
  \<open>R_ARM_GLOB_DAT\<close> at \<open>0x4014\<close>, hence \<open>[0x3014]\<close>.
\<close>

theorem GetSymbolGotOffset_first_jump_slot_then_data_witness:
  "IsValid s2_view \<and>
   table_in_range s2_image (relplt s2_info) (relplt_size s2_info) (sizeof_Rel kElf32) \<and>
   table_in_range s2_image (reldyn s2_info) (reldyn_size s2_info) (sizeof_Rel kElf32) \<and>
   GetDynamicSymbolIndexImpl kElf32 s2_image s2_info (str ''free'') True = Inr (Some (2, 236)) \<and>
   GetSymbolGotOffset s2_view (str ''free'') =
     Inr (expected_got kElf32 s2_image 0x1000 (sizeof_Rel kElf32) (Some 164) 2 (Some 180) 3 2) \<and>
   expected_got kElf32 s2_image 0x1000 (sizeof_Rel kElf32) (Some 164) 2 (Some 180) 3 2 = [0x3014]"
proof -
  have v: "IsValid s2_view" by code_simp
  have i: "mElfInfo s2_view = Some s2_info" by (simp add: s2_view_def)
  have m: "s2_image = span_bytes (mMemory s2_view)" by (simp add: s2_view_def span_bytes_def)
  have k: "kElf32 = elfClass s2_info" by (simp add: s2_info_def ElfInfo_default_def)
  have r: "\<not> use_rela s2_info" by (simp add: s2_info_def ElfInfo_default_def)
  have f: "relplt s2_info = Some 164" "relplt_size s2_info = 2" "reldyn s2_info = Some 180"
    "reldyn_size s2_info = 3" "loadBias s2_info = 0x1000"
    by (simp_all add: s2_info_def ElfInfo_default_def)
  have t1: "table_in_range s2_image (relplt s2_info) (relplt_size s2_info) (sizeof_Rel kElf32)"
    by code_simp
  have t2: "table_in_range s2_image (reldyn s2_info) (reldyn_size s2_info) (sizeof_Rel kElf32)"
    by code_simp
  have d: "GetDynamicSymbolIndexImpl kElf32 s2_image s2_info (str ''free'') True
           = Inr (Some (2, 236))" by code_simp
  have e: "expected_got kElf32 s2_image 0x1000 (sizeof_Rel kElf32) (Some 164) 2 (Some 180) 3 2
           = [0x3014]" by code_simp
  have n: "str ''free'' \<noteq> []" by (simp add: str_def)
  from GetSymbolGotOffset_first_jump_slot_then_data
         [of s2_view s2_info s2_image kElf32 "sizeof_Rel kElf32" "reldyn s2_info"
             "reldyn_size s2_info" "str ''free''", OF v i m k _ _ _ _ _ _ n] r t1 t2 d f
  have "GetSymbolGotOffset s2_view (str ''free'') =
     Inr (expected_got kElf32 s2_image 0x1000 (sizeof_Rel kElf32) (Some 164) 2 (Some 180) 3 2)"
    by simp
  with v t1 t2 d e show ?thesis by blast
qed


section \<open>Safety of the relocation scan\<close>
lemma foldE_Inr_steps:
  "foldE f xs s = Inr r \<Longrightarrow> i \<in> set xs \<Longrightarrow> \<exists>a b. f i a = Inr b"
  by (induction xs arbitrary: s) (auto split: sum.splits)

lemma scan_reldyn_needs_range:
  assumes "scan_reldyn k mem bias recsz tab count symidx acc = Inr r" and "0 < count"
  shows "\<exists>base. tab = Some base \<and> base + (count - 1) * recsz + sizeof_Rel k \<le> length mem"
proof -
  from assms(2) have "count - 1 \<in> set [0..<count]" by simp
  from foldE_Inr_steps [OF assms(1) [unfolded scan_reldyn_def] this]
  obtain base inf where "tab = Some base" "r_info k mem (base + (count - 1) * recsz) = Inr inf"
    by (auto simp: bindE_Inr_iff deref_def split: option.splits)
  then show ?thesis using r_info_Inr_iff [of k mem "base + (count - 1) * recsz"] by blast
qed

lemma scan_relplt_needs_first:
  assumes "scan_relplt k mem bias recsz tab count symidx = Inr r" and "0 < count"
  shows "\<exists>base. tab = Some base \<and> base + sizeof_Rel k \<le> length mem"
proof -
  from assms(2) obtain n where n: "count = Suc n" by (cases count) auto
  from assms(1) obtain y where
    "bindE (deref tab) (\<lambda>base.
        bindE (r_info k mem (base + 0 * recsz)) (\<lambda>inf.
          if R_SYM k inf = ucast symidx \<and> is_jump_slot k (R_TYPE k inf)
          then mapE (\<lambda>off. Some (off - bias)) (r_offset k mem (base + 0 * recsz))
          else Inr None)) = Inr y"
    unfolding scan_relplt_def n upt_conv_Cons [OF zero_less_Suc]
    by (auto split: sum.splits)
  then obtain base inf where "tab = Some base" "r_info k mem base = Inr inf"
    by (auto simp: bindE_Inr_iff deref_def split: option.splits)
  then show ?thesis using r_info_Inr_iff [of k mem base] by blast
qed

lemma scan_relplt_miss_needs_range:
  assumes "0 < count" and "scan_relplt k mem bias recsz tab count symidx = Inr None"
  shows "\<exists>base. tab = Some base \<and> base + (count - 1) * recsz + sizeof_Rel k \<le> length mem"
proof -
  from assms(1) have "count - 1 \<in> set [0..<count]" by simp
  from firstE_None [OF assms(2) [unfolded scan_relplt_def] this]
  obtain base inf where "tab = Some base" "r_info k mem (base + (count - 1) * recsz) = Inr inf"
    by (auto simp: bindE_Inr_iff deref_def split: option.splits)
  then show ?thesis using r_info_Inr_iff [of k mem "base + (count - 1) * recsz"] by blast
qed

lemma scan_relplt_null:
  assumes "0 < count"
  shows "scan_relplt k mem bias recsz None count symidx = Inl NullDeref"
proof -
  from assms obtain n where n: "count = Suc n" by (cases count) auto
  show ?thesis
    unfolding scan_relplt_def n upt_conv_Cons [OF zero_less_Suc]
    by (simp add: deref_def)
qed

text \<open>
  C10: the loops of the relocation scan are bounded by the stored counts only. With
  record size \<open>recsz\<close> at least \<open>sizeof(Elf_Rel)\<close>: when both tables lie inside the attached
  range (an empty table, or a non-null base with \<open>count\<close> records inside), the scan
  returns without a fault; a PLT table with a non-zero count and a null base makes the
  scan read through the null pointer; a PLT scan that returns has read its first record
  inside the range, a PLT scan that returns without a match and a data scan that returns
  have read the \<open>r_info\<close> of every record, up to the last, inside the range through a
  non-null base. The dynamic-section walk
  stores the count of a \<open>DT_PLTRELSZ\<close> entry and leaves \<open>relplt\<close> as it was, so a size tag
  without its base tag leaves a count with a null base.
\<close>

theorem relocation_scan_safety:
  assumes "sizeof_Rel k \<le> recsz"
  shows
    "(table_in_range mem plt pc recsz \<and> table_in_range mem dyn dc recsz \<longrightarrow>
        (\<exists>r. scan_got k mem bias recsz plt pc dyn dc symidx = Inr r)) \<and>
     (0 < pc \<longrightarrow> scan_got k mem bias recsz None pc dyn dc symidx = Inl NullDeref) \<and>
     (0 < pc \<and> (\<exists>r. scan_relplt k mem bias recsz plt pc symidx = Inr r) \<longrightarrow>
        (\<exists>base. plt = Some base \<and> base + sizeof_Rel k \<le> length mem)) \<and>
     (0 < pc \<and> scan_relplt k mem bias recsz plt pc symidx = Inr None \<longrightarrow>
        (\<exists>base. plt = Some base \<and> base + (pc - 1) * recsz + sizeof_Rel k \<le> length mem)) \<and>
     (0 < dc \<and> (\<exists>r. scan_reldyn k mem bias recsz dyn dc symidx acc = Inr r) \<longrightarrow>
        (\<exists>base. dyn = Some base \<and> base + (dc - 1) * recsz + sizeof_Rel k \<le> length mem)) \<and>
     ((if isLoaded then p_vaddr k mem d else p_offset k mem d) = Inr b \<and>
      d_tag k mem (unat b + i * sizeof_Dyn k) = Inr DT_PLTRELSZ \<and>
      d_val k mem (unat b + i * sizeof_Dyn k) = Inr x \<longrightarrow>
        dyn_step k mem isLoaded d i (so, st, info) =
          Inr (so, st, info\<lparr>relplt_size := unat x div sizeof_Rel k\<rparr>))"
proof -
  have a: "table_in_range mem plt pc recsz \<Longrightarrow> table_in_range mem dyn dc recsz \<Longrightarrow>
           \<exists>r. scan_got k mem bias recsz plt pc dyn dc symidx = Inr r"
    using scan_got_in_range [OF _ _ assms] by blast
  have b: "0 < pc \<Longrightarrow> scan_got k mem bias recsz None pc dyn dc symidx = Inl NullDeref"
    by (simp add: scan_got_def scan_relplt_null)
  have c: "0 < pc \<Longrightarrow> scan_relplt k mem bias recsz plt pc symidx = Inr r \<Longrightarrow>
           \<exists>base. plt = Some base \<and> base + sizeof_Rel k \<le> length mem" for r
    by (rule scan_relplt_needs_first)
  have c': "0 < pc \<Longrightarrow> scan_relplt k mem bias recsz plt pc symidx = Inr None \<Longrightarrow>
           \<exists>base. plt = Some base \<and> base + (pc - 1) * recsz + sizeof_Rel k \<le> length mem"
    by (rule scan_relplt_miss_needs_range)
  have d: "0 < dc \<Longrightarrow> scan_reldyn k mem bias recsz dyn dc symidx acc = Inr r \<Longrightarrow>
           \<exists>base. dyn = Some base \<and> base + (dc - 1) * recsz + sizeof_Rel k \<le> length mem" for r
    by (rule scan_reldyn_needs_range)
  have e: "(if isLoaded then p_vaddr k mem d else p_offset k mem d) = Inr b \<Longrightarrow>
      d_tag k mem (unat b + i * sizeof_Dyn k) = Inr DT_PLTRELSZ \<Longrightarrow>
      d_val k mem (unat b + i * sizeof_Dyn k) = Inr x \<Longrightarrow>
        dyn_step k mem isLoaded d i (so, st, info) =
          Inr (so, st, info\<lparr>relplt_size := unat x div sizeof_Rel k\<rparr>)"
    by (simp add: dyn_step_def Let_def)
  show ?thesis
  proof (intro conjI impI)
    assume "table_in_range mem plt pc recsz \<and> table_in_range mem dyn dc recsz"
    then show "\<exists>r. scan_got k mem bias recsz plt pc dyn dc symidx = Inr r"
      using a by blast
  next
    assume "0 < pc"
    then show "scan_got k mem bias recsz None pc dyn dc symidx = Inl NullDeref" by (rule b)
  next
    assume "0 < pc \<and> (\<exists>r. scan_relplt k mem bias recsz plt pc symidx = Inr r)"
    then show "\<exists>base. plt = Some base \<and> base + sizeof_Rel k \<le> length mem"
      using c by blast
  next
    assume "0 < pc \<and> scan_relplt k mem bias recsz plt pc symidx = Inr None"
    then show "\<exists>base. plt = Some base \<and> base + (pc - 1) * recsz + sizeof_Rel k \<le> length mem"
      using c' by blast
  next
    assume "0 < dc \<and> (\<exists>r. scan_reldyn k mem bias recsz dyn dc symidx acc = Inr r)"
    then show "\<exists>base. dyn = Some base \<and> base + (dc - 1) * recsz + sizeof_Rel k \<le> length mem"
      using d by blast
  next
    assume "(if isLoaded then p_vaddr k mem d else p_offset k mem d) = Inr b \<and>
      d_tag k mem (unat b + i * sizeof_Dyn k) = Inr DT_PLTRELSZ \<and>
      d_val k mem (unat b + i * sizeof_Dyn k) = Inr x"
    then show "dyn_step k mem isLoaded d i (so, st, info) =
          Inr (so, st, info\<lparr>relplt_size := unat x div sizeof_Rel k\<rparr>)"
      using e by blast
  qed
qed

text \<open>
  Witness for C10: the image whose dynamic section has \<open>DT_PLTRELSZ\<close> and no \<open>DT_JMPREL\<close>
  attaches to a view with \<open>relplt = nullptr\<close> and \<open>relplt_size = 1\<close>, and the scan for
  \<open>malloc\<close> reads through the null base; the tables of scenario S2 lie inside the range
  and the scan returns.
\<close>

theorem relocation_scan_safety_witness:
  "sizeof_Rel kElf32 \<le> sizeof_Rel kElf32 \<and>
   AttachFileMemMapping (\<lambda>d. None) ElfView_new (Some pltrelsz_only_image)
     = Inr pltrelsz_only_view \<and>
   relplt pltrelsz_only_info = None \<and> relplt_size pltrelsz_only_info = 1 \<and>
   scan_got kElf32 pltrelsz_only_image 0x1000 (sizeof_Rel kElf32) None 1 (Some 164) 3 1
     = Inl NullDeref \<and>
   GetSymbolGotOffset pltrelsz_only_view (str ''malloc'') = Inl NullDeref \<and>
   table_in_range s2_image (Some 164) 2 (sizeof_Rel kElf32) \<and>
   table_in_range s2_image (Some 180) 3 (sizeof_Rel kElf32) \<and>
   (\<exists>r. scan_got kElf32 s2_image 0x1000 (sizeof_Rel kElf32) (Some 164) 2 (Some 180) 3 1 = Inr r)"
proof -
  have s: "sizeof_Rel kElf32 \<le> sizeof_Rel kElf32" by simp
  have f: "relplt pltrelsz_only_info = None" "relplt_size pltrelsz_only_info = 1"
    by (simp_all add: pltrelsz_only_info_def ElfInfo_default_def)
  have g: "GetSymbolGotOffset pltrelsz_only_view (str ''malloc'') = Inl NullDeref"
    by code_simp
  have t1: "table_in_range s2_image (Some 164) 2 (sizeof_Rel kElf32)" by code_simp
  have t2: "table_in_range s2_image (Some 180) 3 (sizeof_Rel kElf32)" by code_simp
  note th = relocation_scan_safety [OF s]
  from th [of pltrelsz_only_image None 1 "Some 164" 3 "0x1000" 1]
  have n: "scan_got kElf32 pltrelsz_only_image 0x1000 (sizeof_Rel kElf32) None 1 (Some 164) 3 1
     = Inl NullDeref" by simp
  from th [of s2_image "Some 164" 2 "Some 180" 3 "0x1000" 1] t1 t2
  have r: "\<exists>r. scan_got kElf32 s2_image 0x1000 (sizeof_Rel kElf32) (Some 164) 2 (Some 180) 3 1
             = Inr r" by simp
  from s attach_pltrelsz_only_image f g t1 t2 n r show ?thesis by blast
qed


section \<open>Prefix query\<close>


lemma strncmp_l_prefix_of_cstr:
  "cstr_from m = Some s \<Longrightarrow> prefix p s \<Longrightarrow> strncmp_l m p = Inr True"
proof (induction p arbitrary: m s)
  case Nil
  then show ?case by simp
next
  case (Cons c cs)
  from Cons.prems(2) obtain s' where s: "s = c # s'" and p: "prefix cs s'"
    by (cases s) auto
  from Cons.prems(1) s obtain m' where m: "m = c # m'" and c: "c \<noteq> 0"
    and t: "cstr_from m' = Some s'"
    by (cases m) (auto split: if_splits)
  from Cons.IH [OF t p] m c show ?case by simp
qed

lemma strncmp_l_prefix:
  "strncmp_l m s = Inr True \<Longrightarrow> prefix p s \<Longrightarrow> strncmp_l m p = Inr True"
proof (induction p arbitrary: m s)
  case Nil
  then show ?case by simp
next
  case (Cons c cs)
  from Cons.prems(2) obtain s' where s: "s = c # s'" and p: "prefix cs s'"
    by (cases s) auto
  from Cons.prems(1) s obtain m' where m: "m = c # m'"
    and t: "c = 0 \<or> strncmp_l m' s' = Inr True"
    by (cases m) (auto split: if_splits)
  from t Cons.IH [OF _ p] m show ?case by auto
qed

lemma sym_matched_prefix_match:
  assumes "sym_matched mem strs sp S" and "prefix P S"
  shows "\<exists>nm. st_name mem sp = Inr nm \<and> strncmp_eq mem (strs + unat nm) P = Inr True"
proof -
  from assms(1) obtain nm where nm: "st_name mem sp = Inr nm"
    and c: "read_cstr mem (strs + unat nm) = Inr S \<or>
            name_matches mem (strs + unat nm) S = Inr True"
    by (auto simp: sym_matched_def split: sum.splits)
  from c have "strncmp_l (drop (strs + unat nm) mem) P = Inr True"
  proof
    assume "read_cstr mem (strs + unat nm) = Inr S"
    then have "cstr_from (drop (strs + unat nm) mem) = Some S"
      by (auto simp: read_cstr_def split: option.splits)
    from strncmp_l_prefix_of_cstr [OF this assms(2)] show ?thesis .
  next
    assume "name_matches mem (strs + unat nm) S = Inr True"
    then have "strncmp_l (drop (strs + unat nm) mem) S = Inr True"
      by (auto simp: name_matches_def strncmp_eq_def bindE_Inr_iff split: if_splits)
    from strncmp_l_prefix [OF this assms(2)] show ?thesis .
  qed
  with nm show ?thesis by (simp add: strncmp_eq_def)
qed

lemma prefix_scan_not_None:
  assumes "j < n" and "sym_matched mem strs (tab + j * sizeof_Sym k) S" and "prefix P S"
  shows "prefix_scan k mem tab strs n P \<noteq> Inr None"
proof
  assume "prefix_scan k mem tab strs n P = Inr None"
  from firstE_None [OF this [unfolded prefix_scan_def], of j] assms(1)
  have "bindE (st_name mem (tab + j * sizeof_Sym k)) (\<lambda>nm.
          bindE (strncmp_eq mem (strs + unat nm) P) (\<lambda>m.
            Inr (if m then Some (tab + j * sizeof_Sym k) else None))) = Inr None"
    by simp
  with sym_matched_prefix_match [OF assms(2,3)] show False by auto
qed

lemma GetSymbolOffset_nonzero_resolves:
  assumes "mElfInfo v = Some info" and "mem = span_bytes (mMemory v)"
    and "k = elfClass info" and "k = kElf32 \<or> k = kElf64"
    and "GetSymbolOffset v S = Inr r" and "r \<noteq> 0"
  shows "(\<exists>i sp. GetDynamicSymbolIndexImpl k mem info S False = Inr (Some (i, sp))) \<or>
         (\<exists>sp. GetNonDynamicSymbolImpl k mem info S = Inr (Some sp)) \<or>
         (\<exists>x. map_of (compressedDebugSymbols info) S = Some x)"
proof -
  from assms(5,6) have ne: "S \<noteq> []" by (auto simp: GetSymbolOffset_def)
  from assms(1,2,5) ne obtain d where d: "dynamic_offset mem info S = Inr d"
    by (auto simp: GetSymbolOffset_def bindE_Inr_iff)
  show ?thesis
  proof (cases d)
    case (Some x)
    with d assms(3,4) show ?thesis
      by (auto simp: dynamic_offset_def bindE_Inr_iff split: option.splits if_splits)
  next
    case None
    with assms(1,2,5) ne d obtain s where s: "symtab_offset mem info S = Inr s"
      by (auto simp: GetSymbolOffset_def bindE_Inr_iff)
    show ?thesis
    proof (cases s)
      case (Some x)
      with s assms(3,4) show ?thesis
        by (auto simp: symtab_offset_def bindE_Inr_iff split: option.splits if_splits)
    next
      case n: None
      with assms(1,2,5,6) ne d None s show ?thesis
        by (auto simp: GetSymbolOffset_def split: option.splits)
    qed
  qed
qed

text \<open>
  C8 (amended): for every valid attached view of class Elf32 or Elf64, every name \<open>S\<close>
  with \<open>GetSymbolOffset(S) \<noteq> 0\<close> (a hit of the dynamic lookup having its index below
  \<open>dynsym_size\<close>) and every non-empty byte prefix \<open>P\<close> of \<open>S\<close>: when the prefix
  query returns, it has hit a symbol. Either \<open>GetFirstSymbolOffsetWithPrefixImpl\<close> found a
  record and the result is its \<open>st_value - loadBias\<close>, or it found none and the debug-symbol
  map has a key that begins with \<open>P\<close>, whose value minus \<open>loadBias\<close> is the result. The
  result itself may be 0.
\<close>

theorem prefix_query_hits:
  assumes "IsValid v" and "mElfInfo v = Some info" and "mem = span_bytes (mMemory v)"
    and "k = elfClass info" and "k = kElf32 \<or> k = kElf64"
    and "GetSymbolOffset v S = Inr r" and "r \<noteq> 0"
    and "prefix P S" and "P \<noteq> []"
    and "\<forall>i sp. GetDynamicSymbolIndexImpl k mem info S False = Inr (Some (i, sp))
           \<longrightarrow> unat i < dynsym_size info"
    and "GetFirstSymbolOffsetWithPrefix v P = Inr r'"
  shows
    "(\<exists>sp x. GetFirstSymbolOffsetWithPrefixImpl k mem info P = Inr (Some sp) \<and>
        st_value k mem sp = Inr x \<and> r' = x - loadBias info) \<or>
     (GetFirstSymbolOffsetWithPrefixImpl k mem info P = Inr None \<and>
        (\<exists>key value. find (\<lambda>(key, value). prefix P key) (compressedDebugSymbols info)
            = Some (key, value) \<and> r' = value - loadBias info))"
proof -
  have "GetFirstSymbolOffsetWithPrefix v P =
          bindE (prefix_offset mem info P) (\<lambda>r.
            case r of Some x \<Rightarrow> Inr x
            | None \<Rightarrow> (case find (\<lambda>(key, value). prefix P key)
                              (compressedDebugSymbols info) of
                         Some (key, value) \<Rightarrow> Inr (value - loadBias info)
                       | None \<Rightarrow> Inr 0))"
    using assms(1,2,9) by (simp add: GetFirstSymbolOffsetWithPrefix_def assms(3))
  with assms(11) obtain po where po: "prefix_offset mem info P = Inr po"
    and res: "(case po of Some x \<Rightarrow> Inr x
               | None \<Rightarrow> (case find (\<lambda>(key, value). prefix P key)
                                 (compressedDebugSymbols info) of
                            Some (key, value) \<Rightarrow> Inr (value - loadBias info)
                          | None \<Rightarrow> Inr 0)) = (Inr r' :: u64 res)"
    by (auto simp: bindE_Inr_iff)
  have "prefix_offset mem info P =
          bindE (GetFirstSymbolOffsetWithPrefixImpl k mem info P) (\<lambda>r.
            case r of None \<Rightarrow> Inr None
            | Some sp \<Rightarrow> mapE Some (sym_offset k mem info sp))"
    using assms(4,5) by (auto simp: prefix_offset_def)
  with po obtain im where im: "GetFirstSymbolOffsetWithPrefixImpl k mem info P = Inr im"
    and po': "(case im of None \<Rightarrow> Inr None | Some sp \<Rightarrow> mapE Some (sym_offset k mem info sp))
              = (Inr po :: u64 option res)"
    by (auto simp: bindE_Inr_iff)
  show ?thesis
  proof (cases im)
    case (Some sp)
    with po' obtain x where "st_value k mem sp = Inr x" "po = Some (x - loadBias info)"
      by (auto simp: sym_offset_def mapE_Inr_iff)
    with res im Some show ?thesis by auto
  next
    case None
    with po' have pn: "po = None" by simp
    have dyn_none: "dynsym info = Some dp \<Longrightarrow> dynstr info = Some ds \<Longrightarrow>
                    prefix_scan k mem dp ds (dynsym_size info) P = Inr None" for dp ds
      using im None
      by (auto simp: GetFirstSymbolOffsetWithPrefixImpl_def bindE_Inr_iff
          split: option.splits)
    have sym_none: "symtab info = Some sp \<Longrightarrow> strtab info = Some ss \<Longrightarrow>
                    prefix_scan k mem sp ss (symtab_size info) P = Inr None" for sp ss
      using im None
      by (auto simp: GetFirstSymbolOffsetWithPrefixImpl_def bindE_Inr_iff
          split: option.splits)
    from GetSymbolOffset_nonzero_resolves [OF assms(2,3,4,5,6,7)]
    consider
      (dyn) i sp where "GetDynamicSymbolIndexImpl k mem info S False = Inr (Some (i, sp))"
    | (tab) sp where "GetNonDynamicSymbolImpl k mem info S = Inr (Some sp)"
    | (dbg) x where "map_of (compressedDebugSymbols info) S = Some x"
      by blast
    then show ?thesis
    proof cases
      case dyn
      from GetDynamicSymbolIndexImpl_sound [OF dyn] obtain dp ds j where
        p: "dynsym info = Some dp" "dynstr info = Some ds"
        and j: "j < dynsym_size info \<or> j = unat i"
        and n: "sp = dp + j * sizeof_Sym k" "sym_matched mem ds sp S"
        by blast
      from j assms(10) dyn have "j < dynsym_size info" by blast
      from prefix_scan_not_None [OF this n(2) [unfolded n(1)] assms(8)] dyn_none [OF p]
      show ?thesis by simp
    next
      case tab
      from GetNonDynamicSymbolImpl_sound [OF tab] obtain sp' ss j where
        p: "symtab info = Some sp'" "strtab info = Some ss"
        and j: "j < symtab_size info"
        and n: "sp = sp' + j * sizeof_Sym k" "sym_named mem ss sp S"
        by blast
      from prefix_scan_not_None [OF j sym_named_matched [OF n(2) [unfolded n(1)]] assms(8)]
        sym_none [OF p]
      show ?thesis by simp
    next
      case dbg
      then have "(S, x) \<in> set (compressedDebugSymbols info)" by (rule map_of_SomeD)
      with assms(8) have "find (\<lambda>(key, value). prefix P key) (compressedDebugSymbols info)
                          \<noteq> None"
        by (auto simp: find_None_iff)
      then obtain ky vl where
        f: "find (\<lambda>(key, value). prefix P key) (compressedDebugSymbols info) = Some (ky, vl)"
        by (cases "find (\<lambda>(key, value). prefix P key) (compressedDebugSymbols info)") auto
      with res pn have "r' = vl - loadBias info" by simp
      with im None f show ?thesis by blast
    qed
  qed
qed

text \<open>
  C8, as stated, makes the prefix query non-zero whenever the exact query is. In the image
  with the import \<open>puts\<close> and the export \<open>puts_hook\<close> (load bias 0) the exact query for
  \<open>puts_hook\<close> returns \<open>0x1234\<close>, while the prefix query for \<open>puts\<close> returns the offset of
  the first match, the undefined \<open>puts\<close>, which is 0; and the prefix query for the empty
  prefix returns 0 by its guard.
\<close>

theorem prefix_query_zero_counterexample:
  "IsValid puts_view \<and>
   GetSymbolOffset puts_view (str ''puts_hook'') = Inr 0x1234 \<and>
   prefix (str ''puts'') (str ''puts_hook'') \<and>
   GetFirstSymbolOffsetWithPrefix puts_view (str ''puts'') = Inr 0 \<and>
   prefix [] (str ''puts_hook'') \<and>
   GetFirstSymbolOffsetWithPrefix puts_view [] = Inr 0"
  by code_simp

text \<open>
  Witness for C8 (amended): the same image, \<open>S = puts_hook\<close> and \<open>P = puts_\<close>; the prefix
  query finds the record of \<open>puts_hook\<close> at address 168.
\<close>

theorem prefix_query_hits_witness:
  "IsValid puts_view \<and>
   GetSymbolOffset puts_view (str ''puts_hook'') = Inr 0x1234 \<and>
   prefix (str ''puts_'') (str ''puts_hook'') \<and>
   GetDynamicSymbolIndexImpl kElf64 puts_image puts_info (str ''puts_hook'') False
     = Inr (Some (2, 168)) \<and>
   unat (2 :: u32) < dynsym_size puts_info \<and>
   GetFirstSymbolOffsetWithPrefix puts_view (str ''puts_'') = Inr 0x1234 \<and>
   GetFirstSymbolOffsetWithPrefixImpl kElf64 puts_image puts_info (str ''puts_'') = Inr (Some 168) \<and>
   st_value kElf64 puts_image 168 = Inr 0x1234"
proof -
  have v: "IsValid puts_view" by code_simp
  have i: "mElfInfo puts_view = Some puts_info" by (simp add: puts_view_def)
  have m: "puts_image = span_bytes (mMemory puts_view)"
    by (simp add: puts_view_def span_bytes_def)
  have k: "kElf64 = elfClass puts_info" by (simp add: puts_info_def ElfInfo_default_def)
  have g: "GetSymbolOffset puts_view (str ''puts_hook'') = Inr 0x1234" by code_simp
  have p: "prefix (str ''puts_'') (str ''puts_hook'')" by code_simp
  have n: "str ''puts_'' \<noteq> []" by (simp add: str_def)
  have d: "GetDynamicSymbolIndexImpl kElf64 puts_image puts_info (str ''puts_hook'') False
           = Inr (Some (2, 168))" by code_simp
  have u: "unat (2 :: u32) < dynsym_size puts_info"
    by (simp add: puts_info_def ElfInfo_default_def)
  have q: "GetFirstSymbolOffsetWithPrefix puts_view (str ''puts_'') = Inr 0x1234" by code_simp
  have b: "loadBias puts_info = 0" by (simp add: puts_info_def ElfInfo_default_def)
  have c: "compressedDebugSymbols puts_info = []" by (simp add: puts_info_def ElfInfo_default_def)
  have fi: "GetFirstSymbolOffsetWithPrefixImpl kElf64 puts_image puts_info (str ''puts_'')
            = Inr (Some 168)" by code_simp
  have sv: "st_value kElf64 puts_image 168 = Inr 0x1234" by code_simp
  from prefix_query_hits [OF v i m k _ g _ p n _ q] d u b c
  have "(\<exists>sp x. GetFirstSymbolOffsetWithPrefixImpl kElf64 puts_image puts_info (str ''puts_'')
            = Inr (Some sp) \<and> st_value kElf64 puts_image sp = Inr x \<and> 0x1234 = x)"
    by simp
  with v g p d u q fi sv show ?thesis by blast
qed


end
